theory Spec2Isabelle
  imports Complex_Main
begin

section \<open>Blast valve (services/blastValveSystem.ts)\<close>

text \<open>
  The valve state of \<^verbatim>\<open>BlastValveSystem\<close>. JavaScript numbers are modelled as reals:
  the operations below only add, subtract, and take minimum and maximum.
  \<^verbatim>\<open>lastRelease\<close> is a clock reading.
\<close>

record ValveState =
  isOpen :: bool
  pressure :: real
  maxPressure :: real
  releaseRate :: real
  lastRelease :: nat

definition initialValveState :: "nat \<Rightarrow> ValveState" where
  "initialValveState now =
     \<lparr>isOpen = False, pressure = 0, maxPressure = 100, releaseRate = 10, lastRelease = now\<rparr>"

definition openValve :: "nat \<Rightarrow> ValveState \<Rightarrow> ValveState" where
  "openValve now v = (if \<not> isOpen v then v\<lparr>isOpen := True, lastRelease := now\<rparr> else v)"

definition updateValvePressure :: "nat \<Rightarrow> ValveState \<Rightarrow> ValveState" where
  "updateValvePressure now v =
     (let v1 = (if pressure v > 0 then v\<lparr>pressure := max 0 (pressure v - 1)\<rparr> else v)
      in if pressure v1 \<ge> maxPressure v1 then openValve now v1 else v1)"

definition increaseValvePressure :: "real \<Rightarrow> ValveState \<Rightarrow> ValveState" where
  "increaseValvePressure amount v = v\<lparr>pressure := min (maxPressure v) (pressure v + amount)\<rparr>"

definition closeValve :: "ValveState \<Rightarrow> ValveState" where
  "closeValve v = v\<lparr>isOpen := False, pressure := 0\<rparr>"

definition triggerValveRelease :: "ValveState \<Rightarrow> ValveState" where
  "triggerValveRelease v = v\<lparr>pressure := max 0 (pressure v - releaseRate v)\<rparr>"

definition getSeverityWeight :: "string \<Rightarrow> real" where
  "getSeverityWeight severity =
     (if severity = ''critical'' then 50
      else if severity = ''high'' then 30
      else if severity = ''medium'' then 20
      else if severity = ''low'' then 10
      else 5)"

text \<open>
  The places of the class that touch the valve: the one-second interval of
  \<^verbatim>\<open>initializeValveSystem\<close>, the end of \<^verbatim>\<open>executeBlast\<close>, the one-second interval of
  \<^verbatim>\<open>monitorRequestRates\<close> (with the number of requests counted in that second), the
  WebSocket wrapper of \<^verbatim>\<open>monitorConnectionCounts\<close> (with the connection count after its
  increment), and the timer set by \<^verbatim>\<open>openValve\<close>.
\<close>

datatype valve_event =
    PressureInterval nat
  | BlastExecuted string
  | RequestRateInterval nat
  | WebSocketOpened nat
  | CloseTimer

fun valve_step :: "ValveState \<Rightarrow> valve_event \<Rightarrow> ValveState" where
  "valve_step v (PressureInterval now) = updateValvePressure now v"
| "valve_step v (BlastExecuted severity) = increaseValvePressure (getSeverityWeight severity) v"
| "valve_step v (RequestRateInterval requestsPerSecond) =
     (let v1 = (if requestsPerSecond > 50
                then increaseValvePressure (real requestsPerSecond / 10) v else v)
      in if requestsPerSecond > 100 then triggerValveRelease v1 else v1)"
| "valve_step v (WebSocketOpened connectionCount) =
     (if connectionCount > 10 then increaseValvePressure (real connectionCount) v else v)"
| "valve_step v CloseTimer = closeValve v"

definition valve_run :: "nat \<Rightarrow> valve_event list \<Rightarrow> ValveState" where
  "valve_run now events = foldl valve_step (initialValveState now) events"

definition valve_inv :: "ValveState \<Rightarrow> bool" where
  "valve_inv v =
     (0 \<le> pressure v \<and> pressure v \<le> maxPressure v \<and> maxPressure v = 100 \<and> releaseRate v = 10)"


section \<open>Values and errors of the JavaScript runtime\<close>

text \<open>
  A thrown value is an \<^verbatim>\<open>Error\<close> with its message, a \<^verbatim>\<open>TypeError\<close> raised by the runtime
  (also an instance of \<^verbatim>\<open>Error\<close>) with its message, or some value that is no
  \<^verbatim>\<open>Error\<close>. The expression \<^verbatim>\<open>error instanceof Error ? error.message : d\<close> is
  \<open>message_or d\<close>.
\<close>

datatype js_error = Error string | TypeError string | NonError

fun message_or :: "string \<Rightarrow> js_error \<Rightarrow> string" where
  "message_or d (Error m) = m"
| "message_or d (TypeError m) = m"
| "message_or d NonError = d"

text \<open>
  Values held in \<^verbatim>\<open>any\<close>-typed positions. \<open>JTimestamp\<close> is the document store's timestamp
  (seconds and nanoseconds), \<open>JDate\<close> a \<^verbatim>\<open>Date\<close> (milliseconds).
\<close>

datatype jv =
    JUndefined
  | JNull
  | JBool bool
  | JNum real
  | JStr string
  | JTimestamp nat nat
  | JDate nat
  | JArr "jv list"
  | JObj "(string \<times> jv) list"

text \<open>\<^verbatim>\<open>s.includes(sub)\<close> on strings.\<close>

fun starts_with :: "string \<Rightarrow> string \<Rightarrow> bool" where
  "starts_with s [] = True"
| "starts_with [] (c # cs) = False"
| "starts_with (x # xs) (c # cs) = (x = c \<and> starts_with xs cs)"

fun str_includes :: "string \<Rightarrow> string \<Rightarrow> bool" where
  "str_includes [] sub = (sub = [])"
| "str_includes (x # xs) sub = (starts_with (x # xs) sub \<or> str_includes xs sub)"

text \<open>\<^verbatim>\<open>e || d\<close> for an optional string: undefined and the empty string are falsy.\<close>

fun string_or :: "string option \<Rightarrow> string \<Rightarrow> string" where
  "string_or None d = d"
| "string_or (Some s) d = (if s = [] then d else s)"

text \<open>Decimal rendering of a natural number, as a template literal renders it.\<close>

fun show_nat :: "nat \<Rightarrow> string" where
  "show_nat n =
     (if n < 10 then [char_of (48 + n)]
      else show_nat (n div 10) @ [char_of (48 + n mod 10)])"

declare show_nat.simps [simp del]

section \<open>Triple radial lock (TripleRadialLockManager)\<close>

datatype lock_type = authentication | authorization | encryption

datatype lock_status = locked | unlocked

record SecurityLock =
  lock_id :: string
  lock_type :: lock_type
  lock_status :: lock_status
  angle :: real
  requiredAngle :: real
  lastAttempt :: nat
  attempts :: nat

record TripleRadialLockManager =
  locks :: "SecurityLock list"
  userId :: "string option"

definition LOCK_ALIGNMENT_TOLERANCE :: real where
  "LOCK_ALIGNMENT_TOLERANCE = 5"

definition MAX_LOCK_ATTEMPTS :: nat where
  "MAX_LOCK_ATTEMPTS = 10"

record AlignmentResult =
  align_success :: bool
  align_lock :: SecurityLock
  allLocksAligned :: bool
  align_message :: string

fun lock_type_name :: "lock_type \<Rightarrow> string" where
  "lock_type_name authentication = ''authentication''"
| "lock_type_name authorization = ''authorization''"
| "lock_type_name encryption = ''encryption''"

text \<open>
  \<^verbatim>\<open>lock\<close> is a reference to the first element of \<^verbatim>\<open>this.locks\<close> of the wanted type, so
  the assignments to its fields change that element of the list.
\<close>

fun update_first :: "('a \<Rightarrow> bool) \<Rightarrow> ('a \<Rightarrow> 'a) \<Rightarrow> 'a list \<Rightarrow> 'a list" where
  "update_first P f [] = []"
| "update_first P f (x # xs) = (if P x then f x # xs else x # update_first P f xs)"

text \<open>
  \<^verbatim>\<open>attemptAlignment\<close>, with the clock reading \<open>now\<close>. The result pairs what the promise
  settles with (\<open>Inl\<close> a thrown error) with the manager afterwards. The write to the remote
  document store is left out: its failure is caught and only logged, and nothing is read
  back from it.
\<close>

definition attemptAlignment ::
  "nat \<Rightarrow> lock_type \<Rightarrow> real \<Rightarrow> TripleRadialLockManager \<Rightarrow>
     (js_error + AlignmentResult) \<times> TripleRadialLockManager" where
  "attemptAlignment now lockType a m =
     (case find (\<lambda>l. lock_type l = lockType) (locks m) of
        None \<Rightarrow> (Inl (Error ''Security lock not found''), m)
      | Some l \<Rightarrow>
          if attempts l \<ge> MAX_LOCK_ATTEMPTS
          then (Inl (Error ''Too many attempts. Please reset locks.''), m)
          else
            let tolerance = LOCK_ALIGNMENT_TOLERANCE;
                angleDiff = \<bar>a - requiredAngle l\<bar>;
                isAligned = (angleDiff \<le> tolerance \<or> angleDiff \<ge> 360 - tolerance);
                upd = (\<lambda>l. l\<lparr>lock_status := (if isAligned then unlocked else lock_status l),
                               angle := a, lastAttempt := now, attempts := attempts l + 1\<rparr>);
                m' = m\<lparr>locks := update_first (\<lambda>l. lock_type l = lockType) upd (locks m)\<rparr>
            in (Inr \<lparr>align_success = isAligned,
                     align_lock = upd l,
                     allLocksAligned = list_all (\<lambda>l. lock_status l = unlocked) (locks m'),
                     align_message =
                       (if isAligned then lock_type_name lockType @ '' lock aligned successfully''
                        else ''Lock alignment failed. '' @
                             show_nat (MAX_LOCK_ATTEMPTS - attempts (upd l)) @
                             '' attempts remaining.'')\<rparr>,
                m'))"

text \<open>The three locks of \<^verbatim>\<open>initializeLocks\<close>, with the three random angles drawn.\<close>

definition initializeLocks ::
  "nat \<Rightarrow> string \<Rightarrow> real \<Rightarrow> real \<Rightarrow> real \<Rightarrow> TripleRadialLockManager" where
  "initializeLocks now uid r1 r2 r3 =
     \<lparr>locks =
        [\<lparr>lock_id = uid @ ''_auth'', lock_type = authentication, lock_status = locked,
          angle = 0, requiredAngle = r1, lastAttempt = now, attempts = 0\<rparr>,
         \<lparr>lock_id = uid @ ''_authz'', lock_type = authorization, lock_status = locked,
          angle = 0, requiredAngle = r2, lastAttempt = now, attempts = 0\<rparr>,
         \<lparr>lock_id = uid @ ''_encrypt'', lock_type = encryption, lock_status = locked,
          angle = 0, requiredAngle = r3, lastAttempt = now, attempts = 0\<rparr>],
      userId = Some uid\<rparr>"

section \<open>Flow execution (flowService)\<close>

text \<open>
  Of a \<^verbatim>\<open>Node\<close> of the flow editor the walker reads the id and the optional type; of an
  \<^verbatim>\<open>Edge\<close> its source and target; of a node's configuration the walker itself reads
  \<^verbatim>\<open>errorHandling\<close>.
\<close>

record Node =
  node_id :: string
  node_type :: "string option"

record Edge =
  source :: string
  target :: string

record NodeConfig =
  errorHandling :: "string option"

datatype exec_status = st_running | st_completed | st_error | st_paused

record FlowExecution =
  exec_id :: string
  status :: exec_status
  currentNode :: "string option"
  results :: "string \<rightharpoonup> jv"
  errors :: "string \<rightharpoonup> string"
  startTime :: nat
  endTime :: "nat option"
  totalCost :: "real option"

text \<open>
  \<^verbatim>\<open>IntegrationResult\<close> and \<^verbatim>\<open>ExecutionResult\<close>; the second has the fields of the first
  and more.
\<close>

record IntegrationResult =
  success :: bool
  result_output :: jv
  error :: "string option"

record ExecutionResult = IntegrationResult +
  executionTime :: int
  tokensUsed :: "real option"
  model :: "string option"
  cost :: "real option"

text \<open>An awaited call either returns a value or throws.\<close>

datatype 'a outcome = Returned 'a | Threw js_error

text \<open>
  What the walker cannot decide by itself is a parameter: the outcome of
  \<^verbatim>\<open>executeAgentNode\<close> and of \<^verbatim>\<open>executeIntegrationNode\<close> (they call remote services) at
  the \<open>k\<close>-th such call of the run for a node id, the engine's message for the
  \<^verbatim>\<open>TypeError\<close> of an assignment to a property of \<^verbatim>\<open>undefined\<close>, and the three clock
  readings of \<^verbatim>\<open>executeFlow\<close>.
\<close>

record world =
  agentNode :: "nat \<Rightarrow> string \<Rightarrow> ExecutionResult outcome"
  integrationNode :: "nat \<Rightarrow> string \<Rightarrow> IntegrationResult outcome"
  setOfUndefined :: string
  dateNow :: nat
  startDate :: nat
  endDate :: nat

text \<open>
  The state a walk works on: the \<^verbatim>\<open>FlowExecution\<close> object all invocations share, and
  the log of the node ids whose service was called, latest first.
\<close>

record walk =
  exec :: FlowExecution
  calls :: "string list"

type_synonym graph = "string \<rightharpoonup> string list"

definition buildExecutionGraph :: "Node list \<Rightarrow> Edge list \<Rightarrow> graph" where
  "buildExecutionGraph nodes edges =
     fold (\<lambda>e g. g(source e \<mapsto> (case g (source e) of None \<Rightarrow> [] | Some ts \<Rightarrow> ts) @ [target e]))
       edges
       (fold (\<lambda>n g. g(node_id n \<mapsto> [])) nodes Map.empty)"

text \<open>
  The arguments of one invocation of \<^verbatim>\<open>executeNode\<close>, whose parameters are
  \<^verbatim>\<open>(nodeId, graph, nodes, input, nodeConfigs, execution)\<close>. \<open>Args6\<close> is a call with all
  six, the last being the shared execution object. \<open>Args5\<close> is a call with five arguments
  \<^verbatim>\<open>(nextNodeId, graph, <object>, nodeConfigs, execution)\<close>: the object is bound to
  \<^verbatim>\<open>nodes\<close>, the configurations to \<^verbatim>\<open>input\<close>, the execution object to
  \<^verbatim>\<open>nodeConfigs\<close>, and the parameter \<^verbatim>\<open>execution\<close> is \<^verbatim>\<open>undefined\<close>.
\<close>

datatype call_args =
    Args6 string graph "Node list" "string \<rightharpoonup> jv" "string \<rightharpoonup> NodeConfig"
  | Args5 string graph "string \<rightharpoonup> jv" "string \<rightharpoonup> NodeConfig"

text \<open>
  \<^verbatim>\<open>for (const nextNodeId of nextNodes) await ...\<close>: in order, left by the first throw.
  \<open>None\<close> is a walk that has not returned within the fuel.
\<close>

fun forEachNext ::
  "(string \<Rightarrow> walk \<Rightarrow> ((js_error + unit) \<times> walk) option) \<Rightarrow> string list \<Rightarrow> walk \<Rightarrow>
     ((js_error + unit) \<times> walk) option" where
  "forEachNext f [] st = Some (Inr (), st)"
| "forEachNext f (x # xs) st =
     (case f x st of
        None \<Rightarrow> None
      | Some (Inl e, st') \<Rightarrow> Some (Inl e, st')
      | Some (Inr u, st') \<Rightarrow> forEachNext f xs st')"

text \<open>
  The first part of the \<^verbatim>\<open>try\<close> block of \<^verbatim>\<open>executeNode\<close>, up to the result and the cost
  of the node: an agent node, an integration node, or neither (the result is then
  \<^verbatim>\<open>undefined\<close> and no service is called). It depends on the number \<open>k\<close> of service
  calls made before.
\<close>

definition isAgentNode :: "Node \<Rightarrow> string \<Rightarrow> bool" where
  "isAgentNode node nodeId = (node_type node = Some ''agent'' \<or> str_includes nodeId ''agent'')"

definition isIntegrationNode :: "Node \<Rightarrow> string \<Rightarrow> bool" where
  "isIntegrationNode node nodeId =
     (node_type node = Some ''integration'' \<or> str_includes nodeId ''integration'')"

definition isStartNode :: "Node \<Rightarrow> string \<Rightarrow> bool" where
  "isStartNode node nodeId = (node_type node = Some ''start'' \<or> str_includes nodeId ''start'')"

definition nodeOutcome :: "world \<Rightarrow> Node \<Rightarrow> string \<Rightarrow> nat \<Rightarrow> js_error + jv \<times> real" where
  "nodeOutcome w node nodeId k =
     (if isAgentNode node nodeId then
        (case agentNode w k nodeId of
           Threw e \<Rightarrow> Inl e
         | Returned agentResult \<Rightarrow>
             if \<not> success agentResult
             then Inl (Error (string_or (error agentResult) ''Agent execution failed''))
             else Inr (result_output agentResult,
                       (case cost agentResult of None \<Rightarrow> 0 | Some c \<Rightarrow> c)))
      else if isIntegrationNode node nodeId then
        (case integrationNode w k nodeId of
           Threw e \<Rightarrow> Inl e
         | Returned integrationResult \<Rightarrow>
             if \<not> success integrationResult
             then Inl (Error (string_or (error integrationResult)
                                ''Integration execution failed''))
             else Inr (result_output integrationResult, 0))
      else Inr (JUndefined, 0))"

definition logCall :: "Node \<Rightarrow> string \<Rightarrow> walk \<Rightarrow> walk" where
  "logCall node nodeId st =
     (if isAgentNode node nodeId \<or> isIntegrationNode node nodeId
      then st\<lparr>calls := nodeId # calls st\<rparr> else st)"

definition setCurrentNode :: "string \<Rightarrow> walk \<Rightarrow> walk" where
  "setCurrentNode nodeId st = st\<lparr>exec := (exec st)\<lparr>currentNode := Some nodeId\<rparr>\<rparr>"

definition storeResult :: "string \<Rightarrow> jv \<Rightarrow> real \<Rightarrow> walk \<Rightarrow> walk" where
  "storeResult nodeId result c st =
     st\<lparr>exec := (exec st)\<lparr>results := (results (exec st))(nodeId \<mapsto> result),
                           totalCost := Some ((case totalCost (exec st) of None \<Rightarrow> 0
                                               | Some t \<Rightarrow> t) + c)\<rparr>\<rparr>"

definition recordError :: "string \<Rightarrow> js_error \<Rightarrow> walk \<Rightarrow> walk" where
  "recordError nodeId e st =
     st\<lparr>exec := (exec st)\<lparr>errors := (errors (exec st))(nodeId \<mapsto>
                                         message_or ''Unknown error'' e)\<rparr>\<rparr>"

definition nextNodesOf :: "graph \<Rightarrow> string \<Rightarrow> string list" where
  "nextNodesOf graph nodeId = (case graph nodeId of None \<Rightarrow> [] | Some ts \<Rightarrow> ts)"

definition errorHandlingOf :: "(string \<rightharpoonup> NodeConfig) \<Rightarrow> string \<Rightarrow> string" where
  "errorHandlingOf nodeConfigs nodeId =
     string_or (case nodeConfigs nodeId of None \<Rightarrow> None | Some config \<Rightarrow> errorHandling config)
       ''stop''"

text \<open>
  \<^verbatim>\<open>executeNode\<close>. The first argument bounds the depth of the invocations; \<open>None\<close> is
  a walk that has not returned within it. An invocation with five arguments throws at its
  first statement, the assignment to \<^verbatim>\<open>execution.currentNode\<close>. The successors of a
  start node are invoked with six arguments, the successors of an executed node (in the
  \<^verbatim>\<open>try\<close> block) and of a skipped failure (in the \<^verbatim>\<open>catch\<close> block) with five, the
  retry with six.
\<close>

fun executeNode ::
  "world \<Rightarrow> nat \<Rightarrow> call_args \<Rightarrow> walk \<Rightarrow> ((js_error + unit) \<times> walk) option" where
  "executeNode w 0 args st = None"
| "executeNode w (Suc n) (Args5 nodeId graph obj nodeConfigs) st =
     Some (Inl (TypeError (setOfUndefined w)), st)"
| "executeNode w (Suc n) (Args6 nodeId graph nodes input nodeConfigs) st =
     (let st1 = setCurrentNode nodeId st in
      case find (\<lambda>x. node_id x = nodeId) nodes of
        None \<Rightarrow> Some (Inl (Error (''Node '' @ nodeId @ '' not found'')), st1)
      | Some node \<Rightarrow>
          if isStartNode node nodeId then
            forEachNext
              (\<lambda>nextNodeId s. executeNode w n (Args6 nextNodeId graph nodes input nodeConfigs) s)
              (nextNodesOf graph nodeId) st1
          else
            (case
               (case nodeOutcome w node nodeId (length (calls st1)) of
                  Inl e \<Rightarrow> Some (Inl e, logCall node nodeId st1)
                | Inr (result, c) \<Rightarrow>
                    forEachNext
                      (\<lambda>nextNodeId s.
                         executeNode w n
                           (Args5 nextNodeId graph (input(nodeId \<mapsto> result)) nodeConfigs) s)
                      (nextNodesOf graph nodeId)
                      (storeResult nodeId result c (logCall node nodeId st1)))
             of
               None \<Rightarrow> None
             | Some (Inr u, st2) \<Rightarrow> Some (Inr (), st2)
             | Some (Inl e, st2) \<Rightarrow>
                 (let st3 = recordError nodeId e st2;
                      handling = errorHandlingOf nodeConfigs nodeId
                  in if handling = ''stop'' then Some (Inl e, st3)
                     else if handling = ''skip'' then
                       forEachNext
                         (\<lambda>nextNodeId s.
                            executeNode w n (Args5 nextNodeId graph input nodeConfigs) s)
                         (nextNodesOf graph nodeId) st3
                     else if handling = ''retry'' then
                       executeNode w n (Args6 nodeId graph nodes input nodeConfigs) st3
                     else Some (Inr (), st3))))"

text \<open>
  \<^verbatim>\<open>executeFlow\<close> on the service's map of executions. It returns what the promise settles
  with (\<open>Inl\<close> a rejection, \<open>Inr\<close> the execution id), the service afterwards and the log of
  service calls; \<open>None\<close> is a promise that has not settled within the fuel. The logging of
  the execution to the document store is left out: \<^verbatim>\<open>logFlowExecution\<close> catches whatever
  it throws and changes nothing here.
\<close>

record FlowService =
  executions :: "string \<rightharpoonup> FlowExecution"

definition newExecution :: "world \<Rightarrow> FlowExecution" where
  "newExecution w =
     \<lparr>exec_id = ''flow_'' @ show_nat (dateNow w), status = st_running, currentNode = None,
      results = Map.empty, errors = Map.empty, startTime = startDate w, endTime = None,
      totalCost = Some 0\<rparr>"

definition findStartNode :: "Node list \<Rightarrow> Node option" where
  "findStartNode nodes = find (\<lambda>n. node_type n = Some ''start'' \<or> str_includes (node_id n) ''start'') nodes"

definition executeFlow ::
  "world \<Rightarrow> nat \<Rightarrow> Node list \<Rightarrow> Edge list \<Rightarrow> (string \<rightharpoonup> jv) \<Rightarrow> (string \<rightharpoonup> NodeConfig) \<Rightarrow>
     FlowService \<Rightarrow> ((js_error + string) \<times> FlowService \<times> string list) option" where
  "executeFlow w fuel nodes edges initialInput nodeConfigs svc =
     (let executionId = ''flow_'' @ show_nat (dateNow w);
          st0 = \<lparr>exec = newExecution w, calls = []\<rparr>
      in case
           (case findStartNode nodes of
              None \<Rightarrow> Some (Inl (Error ''No start node found''), st0)
            | Some startNode \<Rightarrow>
                executeNode w fuel
                  (Args6 (node_id startNode) (buildExecutionGraph nodes edges) nodes
                     initialInput nodeConfigs) st0)
         of
           None \<Rightarrow> None
         | Some (Inr u, st) \<Rightarrow>
             Some (Inr executionId,
                   svc\<lparr>executions := (executions svc)(executionId \<mapsto>
                          (exec st)\<lparr>status := st_completed, endTime := Some (endDate w)\<rparr>)\<rparr>,
                   calls st)
         | Some (Inl e, st) \<Rightarrow>
             Some (Inr executionId,
                   svc\<lparr>executions := (executions svc)(executionId \<mapsto>
                          (exec st)\<lparr>status := st_error,
                                    errors := (errors (exec st))(''flow'' \<mapsto>
                                                message_or ''Unknown error'' e),
                                    endTime := Some (endDate w)\<rparr>)\<rparr>,
                   calls st))"

definition getExecution :: "FlowService \<Rightarrow> string \<Rightarrow> FlowExecution option" where
  "getExecution svc executionId = executions svc executionId"

section \<open>Agent and integration services\<close>

record LLMConfig =
  provider :: string
  llm_model :: string
  llm_apiKey :: string

record Agent =
  agent_id :: string
  agent_name :: string
  llm :: LLMConfig
  systemPrompt :: string
  userPrompt :: string

record ExecutionContext =
  context_input :: "string \<rightharpoonup> jv"
  previousOutputs :: "string \<rightharpoonup> jv"
  context_apiKeys :: "string \<rightharpoonup> string"

text \<open>What a provider method (\<^verbatim>\<open>executeOpenAI\<close> and the others) returns.\<close>

record LLMReply =
  content :: jv
  reply_tokensUsed :: "real option"

text \<open>
  Parameters of \<^verbatim>\<open>executeAgent\<close>: the outcome of the template processing (it builds
  regular expressions from the keys of the context), and the outcome of the provider
  method called with the provider's name, the configuration, the two prompts and the key.
\<close>

record agent_env =
  processPromptTemplate :: "string \<Rightarrow> ExecutionContext \<Rightarrow> string outcome"
  executeProvider :: "string \<Rightarrow> LLMConfig \<Rightarrow> string \<Rightarrow> string \<Rightarrow> string \<Rightarrow> LLMReply outcome"

definition pricing :: "string \<Rightarrow> string \<Rightarrow> real option" where
  "pricing p m =
     (if p = ''openai'' then
        (if m = ''gpt-4o'' then Some 0.005
         else if m = ''gpt-4o-mini'' then Some 0.00015
         else if m = ''gpt-4-turbo'' then Some 0.01
         else if m = ''gpt-4'' then Some 0.03
         else if m = ''gpt-3.5-turbo'' then Some 0.0015
         else if m = ''dall-e-3'' then Some 0.04
         else if m = ''dall-e-2'' then Some 0.02
         else None)
      else if p = ''anthropic'' then
        (if m = ''claude-3-5-sonnet-20241022'' then Some 0.003
         else if m = ''claude-3-opus-20240229'' then Some 0.015
         else if m = ''claude-3-sonnet-20240229'' then Some 0.003
         else if m = ''claude-3-haiku-20240307'' then Some 0.00025
         else None)
      else if p = ''google'' then
        (if m = ''gemini-1.5-pro'' then Some 0.0035
         else if m = ''gemini-1.5-flash'' then Some 0.00035
         else if m = ''gemini-pro'' then Some 0.0005
         else if m = ''gemini-pro-vision'' then Some 0.0025
         else None)
      else if p = ''mistral'' then
        (if m = ''mistral-large-2407'' then Some 0.008
         else if m = ''mistral-medium'' then Some 0.0027
         else if m = ''mistral-small'' then Some 0.002
         else if m = ''codestral-latest'' then Some 0.001
         else None)
      else if p = ''llama'' then
        (if m = ''llama-3.1-405b'' then Some 0.005
         else if m = ''llama-3.1-70b'' then Some 0.0009
         else if m = ''llama-3.1-8b'' then Some 0.0002
         else if m = ''llama-2-70b'' then Some 0.0007
         else None)
      else None)"

definition calculateCost :: "string \<Rightarrow> string \<Rightarrow> real \<Rightarrow> real" where
  "calculateCost p m tokens =
     (case pricing p m of None \<Rightarrow> 0 | Some modelPrice \<Rightarrow> (tokens / 1000) * modelPrice)"

text \<open>
  The \<^verbatim>\<open>try\<close> block of \<^verbatim>\<open>executeAgent\<close>, with the service's key map and the clock
  readings at the start and at the end. \<open>Inl\<close> is a throw.
\<close>

definition executeAgent_try ::
  "agent_env \<Rightarrow> (string \<rightharpoonup> string) \<Rightarrow> int \<Rightarrow> int \<Rightarrow> Agent \<Rightarrow> ExecutionContext \<Rightarrow>
     js_error + ExecutionResult" where
  "executeAgent_try env apiKeys t0 t1 agent context =
     (let llmConfig = llm agent;
          apiKey = string_or (apiKeys (provider llmConfig)) (llm_apiKey llmConfig)
      in if apiKey = [] then
           Inl (Error (''API key not found for provider: '' @ provider llmConfig))
         else
           case processPromptTemplate env (userPrompt agent) context of
             Threw e \<Rightarrow> Inl e
           | Returned processedPrompt \<Rightarrow>
               if provider llmConfig \<in> set [''openai'', ''anthropic'', ''google'', ''mistral'', ''llama'']
               then
                 (case executeProvider env (provider llmConfig) llmConfig (systemPrompt agent)
                         processedPrompt apiKey of
                    Threw e \<Rightarrow> Inl e
                  | Returned result \<Rightarrow>
                      Inr \<lparr>success = True, result_output = content result, error = None,
                           executionTime = t1 - t0, tokensUsed = reply_tokensUsed result,
                           model = Some (llm_model llmConfig),
                           cost = Some (calculateCost (provider llmConfig) (llm_model llmConfig)
                                          (case reply_tokensUsed result of None \<Rightarrow> 0
                                           | Some t \<Rightarrow> t))\<rparr>)
               else Inl (Error (''Unsupported LLM provider: '' @ provider llmConfig)))"

text \<open>
  \<^verbatim>\<open>executeAgent\<close>: the \<^verbatim>\<open>try\<close> block and its \<^verbatim>\<open>catch\<close>. \<open>Inl\<close> would be a rejection
  of the promise the caller awaits. \<^verbatim>\<open>logExecution\<close> is left out: it catches whatever it
  throws and its result is not used.
\<close>

definition executeAgent ::
  "agent_env \<Rightarrow> (string \<rightharpoonup> string) \<Rightarrow> int \<Rightarrow> int \<Rightarrow> Agent \<Rightarrow> ExecutionContext \<Rightarrow>
     js_error + ExecutionResult" where
  "executeAgent env apiKeys t0 t1 agent context =
     (case executeAgent_try env apiKeys t0 t1 agent context of
        Inr executionResult \<Rightarrow> Inr executionResult
      | Inl e \<Rightarrow>
          Inr \<lparr>success = False, result_output = JNull,
               error = Some (message_or ''Unknown error'' e),
               executionTime = t1 - t0, tokensUsed = None, model = None, cost = None\<rparr>)"

record IntegrationExecutionContext =
  action :: string
  parameters :: "string \<rightharpoonup> jv"
  context_apiKey :: string
  integration_input :: "string \<rightharpoonup> jv"

text \<open>
  Parameters of \<^verbatim>\<open>executeIntegration\<close>: the outcome of \<^verbatim>\<open>processParameters\<close> (regular
  expressions again), and the outcome of the provider method called with the provider's
  name, the action, the processed parameters and the key.
\<close>

record integration_env =
  processParameters :: "(string \<rightharpoonup> jv) \<Rightarrow> (string \<rightharpoonup> jv) \<Rightarrow> (string \<rightharpoonup> jv) outcome"
  executeProviderAction ::
    "string \<Rightarrow> string \<Rightarrow> (string \<rightharpoonup> jv) \<Rightarrow> string \<Rightarrow> IntegrationResult outcome"

definition executeIntegration_try ::
  "integration_env \<Rightarrow> (string \<rightharpoonup> string) \<Rightarrow> string \<Rightarrow> IntegrationExecutionContext \<Rightarrow>
     js_error + IntegrationResult" where
  "executeIntegration_try env apiKeys p context =
     (let apiKey = string_or (apiKeys p) (context_apiKey context)
      in if apiKey = [] then Inl (Error (''API key not found for provider: '' @ p))
         else
           case processParameters env (parameters context) (integration_input context) of
             Threw e \<Rightarrow> Inl e
           | Returned processedParams \<Rightarrow>
               if p \<in> set [''slack'', ''twitter'', ''linkedin'', ''meta-ads'', ''google-ads'',
                            ''hubspot'', ''mailchimp'', ''sendgrid'']
               then
                 (case executeProviderAction env p (action context) processedParams apiKey of
                    Threw e \<Rightarrow> Inl e
                  | Returned r \<Rightarrow> Inr r)
               else Inl (Error (''Unsupported integration provider: '' @ p)))"

definition executeIntegration ::
  "integration_env \<Rightarrow> (string \<rightharpoonup> string) \<Rightarrow> string \<Rightarrow> IntegrationExecutionContext \<Rightarrow>
     js_error + IntegrationResult" where
  "executeIntegration env apiKeys p context =
     (case executeIntegration_try env apiKeys p context of
        Inr r \<Rightarrow> Inr r
      | Inl e \<Rightarrow>
          Inr \<lparr>success = False, result_output = JNull,
               error = Some (message_or ''Unknown error'' e)\<rparr>)"

section \<open>API keys (databaseService)\<close>

text \<open>A document of a query snapshot: its id and its data.\<close>

record QueryDocumentSnapshot =
  doc_id :: string
  doc_data :: "string \<rightharpoonup> jv"

text \<open>
  The engine's messages for the two \<^verbatim>\<open>TypeError\<close>s of \<^verbatim>\<open>data.createdAt.toDate()\<close>:
  reading a property of \<^verbatim>\<open>undefined\<close> or \<^verbatim>\<open>null\<close>, and calling what is no function.
\<close>

record engine =
  readOfUndefined :: string
  notAFunction :: string

text \<open>
  \<^verbatim>\<open>data.createdAt.toDate()\<close>: the store's timestamp converts to a \<^verbatim>\<open>Date\<close> of its
  milliseconds; no other value of the model has a \<^verbatim>\<open>toDate\<close> method.
\<close>

fun createdAt_toDate :: "engine \<Rightarrow> jv option \<Rightarrow> js_error + jv" where
  "createdAt_toDate eng (Some (JTimestamp seconds nanoseconds)) =
     Inr (JDate (seconds * 1000 + nanoseconds div 1000000))"
| "createdAt_toDate eng None = Inl (TypeError (readOfUndefined eng))"
| "createdAt_toDate eng (Some JUndefined) = Inl (TypeError (readOfUndefined eng))"
| "createdAt_toDate eng (Some JNull) = Inl (TypeError (readOfUndefined eng))"
| "createdAt_toDate eng (Some v) = Inl (TypeError (notAFunction eng))"

text \<open>
  The function mapped over the documents: \<^verbatim>\<open>keyHash\<close> is taken out of the data, the
  rest is spread after the document id, and \<^verbatim>\<open>createdAt\<close> is set last.
\<close>

definition apiKeyOfDoc :: "engine \<Rightarrow> QueryDocumentSnapshot \<Rightarrow> js_error + (string \<rightharpoonup> jv)" where
  "apiKeyOfDoc eng d =
     (let data = doc_data d;
          apiKeyData = data |` (- {''keyHash''})
      in case createdAt_toDate eng (data ''createdAt'') of
           Inl e \<Rightarrow> Inl e
         | Inr date \<Rightarrow> Inr (([''id'' \<mapsto> JStr (doc_id d)] ++ apiKeyData)(''createdAt'' \<mapsto> date)))"

fun mapOrThrow :: "('a \<Rightarrow> js_error + 'b) \<Rightarrow> 'a list \<Rightarrow> js_error + 'b list" where
  "mapOrThrow f [] = Inr []"
| "mapOrThrow f (x # xs) =
     (case f x of
        Inl e \<Rightarrow> Inl e
      | Inr y \<Rightarrow> (case mapOrThrow f xs of Inl e \<Rightarrow> Inl e | Inr ys \<Rightarrow> Inr (y # ys)))"

fun join :: "string \<Rightarrow> string list \<Rightarrow> string" where
  "join sep [] = []"
| "join sep [x] = x"
| "join sep (x # y # ys) = x @ sep @ join sep (y # ys)"

record Compliance =
  compliant :: bool
  issues :: "string list"

text \<open>
  \<^verbatim>\<open>validateSecurityAccess\<close>: the current user (if any), the outcome of the compliance
  check and the outcome of the access check are parameters. \<open>Some e\<close> is a throw.
\<close>

definition validateSecurityAccess ::
  "string option \<Rightarrow> Compliance outcome \<Rightarrow> bool outcome \<Rightarrow> js_error option" where
  "validateSecurityAccess user compliance hasAccess =
     (case user of
        None \<Rightarrow> Some (Error ''User not authenticated'')
      | Some uid \<Rightarrow>
          (case compliance of
             Threw e \<Rightarrow> Some e
           | Returned c \<Rightarrow>
               if \<not> compliant c
               then Some (Error (''Security compliance required: '' @ join '', '' (issues c)))
               else
                 (case hasAccess of
                    Threw e \<Rightarrow> Some e
                  | Returned a \<Rightarrow>
                      if \<not> a then Some (Error ''Access denied by security policy'') else None)))"

text \<open>
  \<^verbatim>\<open>getUserApiKeys\<close>; \<open>snapshot\<close> is the outcome of the query for the user's documents.
\<close>

definition getUserApiKeys ::
  "engine \<Rightarrow> string option \<Rightarrow> Compliance outcome \<Rightarrow> bool outcome \<Rightarrow>
     QueryDocumentSnapshot list outcome \<Rightarrow> js_error + (string \<rightharpoonup> jv) list" where
  "getUserApiKeys eng user compliance hasAccess snapshot =
     (case validateSecurityAccess user compliance hasAccess of
        Some e \<Rightarrow> Inl e
      | None \<Rightarrow>
          (case user of
             None \<Rightarrow> Inl (Error ''User not authenticated'')
           | Some uid \<Rightarrow>
               (case (case snapshot of
                        Threw e \<Rightarrow> Inl e
                      | Returned docs \<Rightarrow> mapOrThrow (apiKeyOfDoc eng) docs) of
                  Inl e \<Rightarrow> Inl (Error (message_or ''Failed to get API keys'' e))
                | Inr keys \<Rightarrow> Inr keys)))"

section \<open>Flow executor component (components/FlowExecutor.tsx)\<close>

text \<open>
  The component's own state (\<^verbatim>\<open>useState\<close>): the execution it shows, the running flag and
  the text of the input field. \<^verbatim>\<open>stopExecution\<close> acts on the component and the flow
  service together.
\<close>

record FlowExecutor =
  shown_execution :: "FlowExecution option"
  isRunning :: bool
  input_text :: string


section \<open>Example flows\<close>

text \<open>
  Two worlds: one where every agent call returns a successful result, one where every
  agent call returns a failure result (as \<^verbatim>\<open>executeAgent\<close> does when no key is set for
  the provider). The message of the \<^verbatim>\<open>TypeError\<close> is V8's.
\<close>

definition agentsSucceed :: world where
  "agentsSucceed =
     \<lparr>agentNode = (\<lambda>k nodeId. Returned \<lparr>success = True, result_output = JStr ''out'',
                      error = None, executionTime = 1, tokensUsed = None, model = None,
                      cost = None\<rparr>),
      integrationNode = (\<lambda>k nodeId. Returned \<lparr>success = True, result_output = JNull,
                      error = None\<rparr>),
      setOfUndefined = ''Cannot set properties of undefined (setting 'currentNode')'',
      dateNow = 7, startDate = 7, endDate = 9\<rparr>"

definition agentsFail :: world where
  "agentsFail =
     \<lparr>agentNode = (\<lambda>k nodeId. Returned \<lparr>success = False, result_output = JNull,
                      error = Some ''API key not found for provider: openai'', executionTime = 1, tokensUsed = None,
                      model = None, cost = None\<rparr>),
      integrationNode = (\<lambda>k nodeId. Returned \<lparr>success = True, result_output = JNull,
                      error = None\<rparr>),
      setOfUndefined = ''Cannot set properties of undefined (setting 'currentNode')'',
      dateNow = 7, startDate = 7, endDate = 9\<rparr>"

text \<open>
  Flows as the editor builds them: the start node has id \<^verbatim>\<open>start\<close> and type
  \<^verbatim>\<open>input\<close>, an agent node has an id beginning with \<^verbatim>\<open>agent-\<close> and type
  \<^verbatim>\<open>agent\<close>. The chain start, agent-1, agent-2; the same nodes with a further edge
  from agent-2 back to agent-1; the single agent-1 after the start.
\<close>

definition chainNodes :: "Node list" where
  "chainNodes = [\<lparr>node_id = ''start'', node_type = Some ''input''\<rparr>,
                 \<lparr>node_id = ''agent-1'', node_type = Some ''agent''\<rparr>,
                 \<lparr>node_id = ''agent-2'', node_type = Some ''agent''\<rparr>]"

definition chainEdges :: "Edge list" where
  "chainEdges = [\<lparr>source = ''start'', target = ''agent-1''\<rparr>, \<lparr>source = ''agent-1'', target = ''agent-2''\<rparr>]"

definition singleNodes :: "Node list" where
  "singleNodes = [\<lparr>node_id = ''start'', node_type = Some ''input''\<rparr>,
                  \<lparr>node_id = ''agent-1'', node_type = Some ''agent''\<rparr>]"

definition singleEdges :: "Edge list" where
  "singleEdges = [\<lparr>source = ''start'', target = ''agent-1''\<rparr>]"

definition cycleEdges :: "Edge list" where
  "cycleEdges = [\<lparr>source = ''start'', target = ''agent-1''\<rparr>,
                 \<lparr>source = ''agent-1'', target = ''agent-2''\<rparr>,
                 \<lparr>source = ''agent-2'', target = ''agent-1''\<rparr>]"

definition retryConfigs :: "string \<rightharpoonup> NodeConfig" where
  "retryConfigs = [''agent-1'' \<mapsto> \<lparr>errorHandling = Some ''retry''\<rparr>]"

definition noExecutions :: FlowService where
  "noExecutions = \<lparr>executions = Map.empty\<rparr>"

section \<open>Properties of the blast valve\<close>

lemma getSeverityWeight_pos: "0 < getSeverityWeight s"
  by (simp add: getSeverityWeight_def)

lemma valve_inv_initial: "valve_inv (initialValveState now)"
  by (simp add: valve_inv_def initialValveState_def)

lemma valve_inv_openValve: "valve_inv v \<Longrightarrow> valve_inv (openValve now v)"
  by (simp add: valve_inv_def openValve_def)

lemma valve_inv_updateValvePressure: "valve_inv v \<Longrightarrow> valve_inv (updateValvePressure now v)"
  by (auto simp: valve_inv_def updateValvePressure_def openValve_def Let_def)

lemma valve_inv_increaseValvePressure:
  "valve_inv v \<Longrightarrow> 0 \<le> amount \<Longrightarrow> valve_inv (increaseValvePressure amount v)"
  by (auto simp: valve_inv_def increaseValvePressure_def)

lemma valve_inv_closeValve: "valve_inv v \<Longrightarrow> valve_inv (closeValve v)"
  by (simp add: valve_inv_def closeValve_def)

lemma valve_inv_triggerValveRelease: "valve_inv v \<Longrightarrow> valve_inv (triggerValveRelease v)"
  by (auto simp: valve_inv_def triggerValveRelease_def)

lemma valve_inv_step: "valve_inv v \<Longrightarrow> valve_inv (valve_step v e)"
proof (cases e)
  case (BlastExecuted s)
  assume "valve_inv v"
  then show ?thesis
    using BlastExecuted getSeverityWeight_pos [of s]
    by (simp add: valve_inv_increaseValvePressure less_imp_le)
next
  case (RequestRateInterval n)
  assume "valve_inv v"
  then show ?thesis
    using RequestRateInterval
    by (simp add: Let_def valve_inv_increaseValvePressure valve_inv_triggerValveRelease)
qed (simp_all add: valve_inv_updateValvePressure valve_inv_increaseValvePressure
       valve_inv_closeValve)

lemma valve_inv_foldl: "valve_inv v \<Longrightarrow> valve_inv (foldl valve_step v es)"
  by (induction es arbitrary: v) (simp_all add: valve_inv_step)

text \<open>
  C8. The pressure of the blast valve stays in the closed interval from 0 to
  \<^verbatim>\<open>maxPressure\<close> = 100. It is 0 in the initial state, and in range after any sequence
  of the events that change the valve (pressure decay, pressure increase from a blast,
  from the request rate or from the connection count, release, closing). Each operation
  keeps a valve with pressure in range (maximum 100, release rate 10) in range:
  \<^verbatim>\<open>updateValvePressure\<close>, \<^verbatim>\<open>triggerValveRelease\<close>, \<^verbatim>\<open>closeValve\<close>, and
  \<^verbatim>\<open>increaseValvePressure\<close> for an amount that is not negative, as every amount passed
  to it is.
\<close>

theorem valve_pressure_in_range:
  "pressure (initialValveState now) = 0 \<and>
   0 \<le> pressure (valve_run now events) \<and>
   pressure (valve_run now events) \<le> maxPressure (valve_run now events) \<and>
   maxPressure (valve_run now events) = 100 \<and>
   (valve_inv v \<longrightarrow>
      valve_inv (updateValvePressure t v) \<and> valve_inv (triggerValveRelease v) \<and>
      valve_inv (closeValve v) \<and>
      (0 \<le> amount \<longrightarrow> valve_inv (increaseValvePressure amount v)))"
proof -
  have "valve_inv (valve_run now events)"
    using valve_inv_foldl [OF valve_inv_initial, of now events]
    by (simp add: valve_run_def)
  then have r: "0 \<le> pressure (valve_run now events) \<and>
      pressure (valve_run now events) \<le> maxPressure (valve_run now events) \<and>
      maxPressure (valve_run now events) = 100"
    by (simp add: valve_inv_def)
  have p: "pressure (initialValveState now) = 0"
    by (simp add: initialValveState_def)
  from r p show ?thesis
    by (simp add: valve_inv_updateValvePressure valve_inv_triggerValveRelease
          valve_inv_closeValve valve_inv_increaseValvePressure)
qed

theorem valve_pressure_in_range_witness:
  "pressure (increaseValvePressure 50 (increaseValvePressure 80 (initialValveState 0))) = 100 \<and>
   pressure (triggerValveRelease (initialValveState 0)) = 0 \<and>
   pressure (valve_run 0 [BlastExecuted ''critical'', RequestRateInterval 120,
                          PressureInterval 1]) = 51"
proof -
  have i: "valve_inv (initialValveState 0)"
    by (simp add: valve_inv_def initialValveState_def)
  from valve_pressure_in_range [of 0 "[]" "initialValveState 0" 0 80] i
  have "valve_inv (increaseValvePressure 80 (initialValveState 0))"
    by simp
  with valve_pressure_in_range
         [of 0 "[]" "increaseValvePressure 80 (initialValveState 0)" 0 50]
  have "valve_inv (increaseValvePressure 50 (increaseValvePressure 80 (initialValveState 0)))"
    by simp
  then have "pressure (increaseValvePressure 50
      (increaseValvePressure 80 (initialValveState 0))) \<le> 100"
    by (simp add: valve_inv_def)
  moreover have "pressure (increaseValvePressure 50
      (increaseValvePressure 80 (initialValveState 0))) \<ge> 100"
    by (simp add: increaseValvePressure_def initialValveState_def)
  ultimately have a: "pressure (increaseValvePressure 50
      (increaseValvePressure 80 (initialValveState 0))) = 100"
    by simp
  have b: "pressure (triggerValveRelease (initialValveState 0)) = 0"
    by (simp add: triggerValveRelease_def initialValveState_def)
  have c: "pressure (valve_run 0 [BlastExecuted ''critical'', RequestRateInterval 120,
                          PressureInterval 1]) = 51"
    by (simp add: valve_run_def initialValveState_def increaseValvePressure_def
          getSeverityWeight_def triggerValveRelease_def updateValvePressure_def
          openValve_def Let_def)
  from a b c show ?thesis by simp
qed

section \<open>Properties of the triple radial lock\<close>

lemma find_update_first:
  "find P xs = Some x \<Longrightarrow> P (f x) \<Longrightarrow> find P (update_first P f xs) = Some (f x)"
  by (induction xs) (auto split: if_splits)

lemma find_Some_holds: "find P xs = Some x \<Longrightarrow> P x"
  by (induction xs) (auto split: if_splits)

text \<open>
  C9. For the lock of the wanted type: while its attempts are below 10,
  \<^verbatim>\<open>attemptAlignment\<close> returns, the lock's attempts have grown by exactly one, and the
  attempt succeeds exactly when the distance of the angle from the required angle is at
  most 5 or at least 355; a success marks the lock unlocked, a failure leaves its status.
  Once the attempts have reached 10, every call (any angle, any time) throws
  \<^verbatim>\<open>Too many attempts. Please reset locks.\<close> and leaves the manager as it was.
\<close>

theorem attemptAlignment_counts_and_aligns:
  assumes found: "find (\<lambda>l. lock_type l = lockType) (locks m) = Some l"
  shows "(attempts l < 10 \<longrightarrow>
           (\<exists>res m'. attemptAlignment now lockType a m = (Inr res, m') \<and>
              find (\<lambda>l. lock_type l = lockType) (locks m') = Some (align_lock res) \<and>
              attempts (align_lock res) = attempts l + 1 \<and>
              align_success res =
                (\<bar>a - requiredAngle l\<bar> \<le> 5 \<or> \<bar>a - requiredAngle l\<bar> \<ge> 355) \<and>
              lock_status (align_lock res) =
                (if align_success res then unlocked else lock_status l))) \<and>
         (attempts l \<ge> 10 \<longrightarrow>
            attemptAlignment now lockType a m =
              (Inl (Error ''Too many attempts. Please reset locks.''), m))"
proof -
  from found have ty: "lock_type l = lockType"
    by (rule find_Some_holds)
  show ?thesis
    using found ty
    by (simp add: attemptAlignment_def Let_def LOCK_ALIGNMENT_TOLERANCE_def
          MAX_LOCK_ATTEMPTS_def find_update_first)
qed

theorem attemptAlignment_counts_and_aligns_witness:
  "(\<exists>res m'. attemptAlignment 7 authorization 3 (initializeLocks 0 ''u'' 10 358 100) =
       (Inr res, m') \<and>
     attempts (align_lock res) = 1 \<and> align_success res \<and>
     lock_status (align_lock res) = unlocked) \<and>
   attemptAlignment 7 authorization 3
     \<lparr>locks = [\<lparr>lock_id = ''u_authz'', lock_type = authorization, lock_status = locked,
                angle = 0, requiredAngle = 358, lastAttempt = 0, attempts = 10\<rparr>],
      userId = Some ''u''\<rparr> =
   (Inl (Error ''Too many attempts. Please reset locks.''),
     \<lparr>locks = [\<lparr>lock_id = ''u_authz'', lock_type = authorization, lock_status = locked,
                angle = 0, requiredAngle = 358, lastAttempt = 0, attempts = 10\<rparr>],
      userId = Some ''u''\<rparr>)"
proof -
  let ?l = "\<lparr>lock_id = ''u_authz'', lock_type = authorization, lock_status = locked,
             angle = 0, requiredAngle = 358, lastAttempt = 0, attempts = 0\<rparr>"
  let ?l10 = "\<lparr>lock_id = ''u_authz'', lock_type = authorization, lock_status = locked,
             angle = 0, requiredAngle = 358, lastAttempt = 0, attempts = 10\<rparr>"
  have f1: "find (\<lambda>l. lock_type l = authorization)
              (locks (initializeLocks 0 ''u'' 10 358 100)) = Some ?l"
    by (simp add: initializeLocks_def)
  have f2: "find (\<lambda>l. lock_type l = authorization)
              (locks \<lparr>locks = [?l10], userId = Some ''u''\<rparr>) = Some ?l10"
    by simp
  from attemptAlignment_counts_and_aligns [OF f1, of 7 3]
  have a: "\<exists>res m'. attemptAlignment 7 authorization 3 (initializeLocks 0 ''u'' 10 358 100) =
       (Inr res, m') \<and>
     attempts (align_lock res) = 1 \<and> align_success res \<and>
     lock_status (align_lock res) = unlocked"
    by auto
  from attemptAlignment_counts_and_aligns [OF f2, of 7 3]
  have b: "attemptAlignment 7 authorization 3 \<lparr>locks = [?l10], userId = Some ''u''\<rparr> =
    (Inl (Error ''Too many attempts. Please reset locks.''),
     \<lparr>locks = [?l10], userId = Some ''u''\<rparr>)"
    by simp
  from a b show ?thesis by simp
qed


section \<open>Properties of the agent and integration services\<close>

text \<open>
  C5, as stated, fails: a provider error inside \<^verbatim>\<open>executeAgent\<close> or
  \<^verbatim>\<open>executeIntegration\<close> does not reach the caller as a throw. The call returns a
  result with \<^verbatim>\<open>success: false\<close> and the error's message.
\<close>

theorem provider_error_is_returned_not_thrown:
  "executeAgent
     \<lparr>processPromptTemplate = (\<lambda>t c. Returned t),
      executeProvider = (\<lambda>p c s u k. Threw (Error ''OpenAI API error: Rate limit reached''))\<rparr>
     [''openai'' \<mapsto> ''sk-1'']
     10 25
     \<lparr>agent_id = ''a1'', agent_name = ''Writer'',
      llm = \<lparr>provider = ''openai'', llm_model = ''gpt-4o'', llm_apiKey = []\<rparr>,
      systemPrompt = ''s'', userPrompt = ''u''\<rparr>
     \<lparr>context_input = Map.empty, previousOutputs = Map.empty, context_apiKeys = Map.empty\<rparr>
   = Inr \<lparr>success = False, result_output = JNull,
          error = Some ''OpenAI API error: Rate limit reached'',
          executionTime = 15, tokensUsed = None, model = None, cost = None\<rparr> \<and>
   executeIntegration
     \<lparr>processParameters = (\<lambda>ps i. Returned ps),
      executeProviderAction = (\<lambda>p a ps k. Threw (Error ''Slack API error: channel_not_found''))\<rparr>
     Map.empty ''slack''
     \<lparr>action = ''send-message'', parameters = Map.empty, context_apiKey = ''xoxb'',
      integration_input = Map.empty\<rparr>
   = Inr \<lparr>success = False, result_output = JNull,
          error = Some ''Slack API error: channel_not_found''\<rparr>"
  by (simp add: executeAgent_def executeAgent_try_def executeIntegration_def
        executeIntegration_try_def Let_def)

text \<open>
  C5, amended. \<^verbatim>\<open>executeAgent\<close> and \<^verbatim>\<open>executeIntegration\<close> never throw: every error
  arising in their \<^verbatim>\<open>try\<close> block is caught there and returned to the caller as a result
  with \<^verbatim>\<open>success: false\<close>, \<^verbatim>\<open>output: null\<close> and the error's message
  (\<^verbatim>\<open>Unknown error\<close> for a thrown value that is no \<^verbatim>\<open>Error\<close>).
\<close>

theorem executeAgent_executeIntegration_return_failures:
  "(\<exists>r. executeAgent env apiKeys t0 t1 agent context = Inr r) \<and>
   (\<forall>e. executeAgent_try env apiKeys t0 t1 agent context = Inl e \<longrightarrow>
        executeAgent env apiKeys t0 t1 agent context =
          Inr \<lparr>success = False, result_output = JNull,
               error = Some (message_or ''Unknown error'' e),
               executionTime = t1 - t0, tokensUsed = None, model = None, cost = None\<rparr>) \<and>
   (\<exists>r. executeIntegration ienv ikeys p icontext = Inr r) \<and>
   (\<forall>e. executeIntegration_try ienv ikeys p icontext = Inl e \<longrightarrow>
        executeIntegration ienv ikeys p icontext =
          Inr \<lparr>success = False, result_output = JNull,
               error = Some (message_or ''Unknown error'' e)\<rparr>)"
  by (simp add: executeAgent_def executeIntegration_def split: sum.splits)

theorem executeAgent_executeIntegration_return_failures_witness:
  "executeAgent
     \<lparr>processPromptTemplate = (\<lambda>t c. Returned t),
      executeProvider = (\<lambda>p c s u k. Threw (Error ''Anthropic API error: overloaded''))\<rparr>
     Map.empty 0 4
     \<lparr>agent_id = ''a2'', agent_name = ''Analyst'',
      llm = \<lparr>provider = ''anthropic'', llm_model = ''claude-3-opus-20240229'',
             llm_apiKey = ''key''\<rparr>,
      systemPrompt = ''s'', userPrompt = ''u''\<rparr>
     \<lparr>context_input = Map.empty, previousOutputs = Map.empty, context_apiKeys = Map.empty\<rparr>
   = Inr \<lparr>success = False, result_output = JNull,
          error = Some ''Anthropic API error: overloaded'',
          executionTime = 4, tokensUsed = None, model = None, cost = None\<rparr> \<and>
   executeIntegration
     \<lparr>processParameters = (\<lambda>ps i. Returned ps),
      executeProviderAction = (\<lambda>p a ps k. Threw NonError)\<rparr>
     [''twitter'' \<mapsto> ''tk''] ''twitter''
     \<lparr>action = ''post-tweet'', parameters = Map.empty, context_apiKey = [],
      integration_input = Map.empty\<rparr>
   = Inr \<lparr>success = False, result_output = JNull, error = Some ''Unknown error''\<rparr>"
proof -
  let ?env = "\<lparr>processPromptTemplate = (\<lambda>t c. Returned t),
      executeProvider = (\<lambda>p c s u k. Threw (Error ''Anthropic API error: overloaded''))\<rparr>"
  let ?agent = "\<lparr>agent_id = ''a2'', agent_name = ''Analyst'',
      llm = \<lparr>provider = ''anthropic'', llm_model = ''claude-3-opus-20240229'',
             llm_apiKey = ''key''\<rparr>,
      systemPrompt = ''s'', userPrompt = ''u''\<rparr>"
  let ?ctx = "\<lparr>context_input = Map.empty, previousOutputs = Map.empty,
      context_apiKeys = Map.empty\<rparr>"
  let ?ienv = "\<lparr>processParameters = (\<lambda>ps i. Returned ps),
      executeProviderAction = (\<lambda>p a ps k. Threw NonError)\<rparr>"
  let ?ictx = "\<lparr>action = ''post-tweet'', parameters = Map.empty, context_apiKey = [],
      integration_input = Map.empty\<rparr>"
  have a: "executeAgent_try ?env Map.empty 0 4 ?agent ?ctx =
      Inl (Error ''Anthropic API error: overloaded'')"
    by (simp add: executeAgent_try_def Let_def)
  have b: "executeIntegration_try ?ienv [''twitter'' \<mapsto> ''tk''] ''twitter'' ?ictx =
      Inl NonError"
    by (simp add: executeIntegration_try_def Let_def)
  from executeAgent_executeIntegration_return_failures
         [of ?env Map.empty 0 4 ?agent ?ctx ?ienv "[''twitter'' \<mapsto> ''tk'']"
             "''twitter''" ?ictx] a b
  show ?thesis by simp
qed

section \<open>Properties of the API key listing\<close>

lemma createdAt_toDate_Inr:
  "createdAt_toDate eng v = Inr date \<Longrightarrow>
     \<exists>seconds nanoseconds. v = Some (JTimestamp seconds nanoseconds) \<and>
        date = JDate (seconds * 1000 + nanoseconds div 1000000)"
  by (cases "(eng, v)" rule: createdAt_toDate.cases) auto

lemma apiKeyOfDoc_fields:
  assumes "apiKeyOfDoc eng d = Inr r"
  shows "r ''keyHash'' = None \<and>
     (\<forall>k. k \<noteq> ''keyHash'' \<and> k \<noteq> ''createdAt'' \<and> k \<noteq> ''id'' \<longrightarrow> r k = doc_data d k) \<and>
     (\<exists>seconds nanoseconds.
         doc_data d ''createdAt'' = Some (JTimestamp seconds nanoseconds) \<and>
         r ''createdAt'' = Some (JDate (seconds * 1000 + nanoseconds div 1000000))) \<and>
     r ''id'' = (case doc_data d ''id'' of None \<Rightarrow> Some (JStr (doc_id d)) | Some v \<Rightarrow> Some v)"
  using assms unfolding apiKeyOfDoc_def Let_def
  by (auto split: sum.splits option.splits dest!: createdAt_toDate_Inr
        simp: map_add_def restrict_map_def)

lemma mapOrThrow_all2:
  "mapOrThrow f xs = Inr ys \<Longrightarrow> (\<And>x y. f x = Inr y \<Longrightarrow> P x y) \<Longrightarrow> list_all2 P xs ys"
  by (induction xs arbitrary: ys) (auto split: sum.splits)

text \<open>
  C10, as stated, fails: not every field other than \<^verbatim>\<open>keyHash\<close> is preserved. The
  stored \<^verbatim>\<open>createdAt\<close> is a timestamp of the document store, the returned one is
  the \<^verbatim>\<open>Date\<close> it converts to.
\<close>

theorem getUserApiKeys_createdAt_is_converted:
  "map_sum id (map (\<lambda>r. (r ''createdAt'', r ''keyHash'', r ''name'')))
     (getUserApiKeys \<lparr>readOfUndefined = ''r'', notAFunction = ''n''\<rparr> (Some ''u'')
        (Returned \<lparr>compliant = True, issues = []\<rparr>) (Returned True)
        (Returned [\<lparr>doc_id = ''k1'',
                    doc_data = [''name'' \<mapsto> JStr ''ci'', ''keyHash'' \<mapsto> JStr ''h'',
                                ''createdAt'' \<mapsto> JTimestamp 5 0]\<rparr>]))
   = Inr [(Some (JDate 5000), None, Some (JStr ''ci''))] \<and>
   Some (JDate 5000) \<noteq> Some (JTimestamp 5 0)"
  by (simp add: getUserApiKeys_def validateSecurityAccess_def apiKeyOfDoc_def
        map_add_def restrict_map_def)

text \<open>
  C10, amended. Whenever \<^verbatim>\<open>getUserApiKeys\<close> returns, it returns one object per document
  of the snapshot, in order, and for each: the object has no \<^verbatim>\<open>keyHash\<close>; every field
  of the document other than \<^verbatim>\<open>keyHash\<close>, \<^verbatim>\<open>createdAt\<close> and \<^verbatim>\<open>id\<close> is there
  unchanged (and no other field is added); \<^verbatim>\<open>createdAt\<close> is the \<^verbatim>\<open>Date\<close> of the
  document's timestamp; \<^verbatim>\<open>id\<close> is the document's own \<^verbatim>\<open>id\<close> field if it has one and
  the document id otherwise.
\<close>

theorem getUserApiKeys_hides_keyHash:
  assumes "getUserApiKeys eng user compliance hasAccess snapshot = Inr keys"
  shows "\<exists>docs. snapshot = Returned docs \<and>
     list_all2
       (\<lambda>d r. r ''keyHash'' = None \<and>
          (\<forall>k. k \<noteq> ''keyHash'' \<and> k \<noteq> ''createdAt'' \<and> k \<noteq> ''id'' \<longrightarrow> r k = doc_data d k) \<and>
          (\<exists>seconds nanoseconds.
              doc_data d ''createdAt'' = Some (JTimestamp seconds nanoseconds) \<and>
              r ''createdAt'' = Some (JDate (seconds * 1000 + nanoseconds div 1000000))) \<and>
          r ''id'' = (case doc_data d ''id'' of None \<Rightarrow> Some (JStr (doc_id d))
                      | Some v \<Rightarrow> Some v))
       docs keys"
proof -
  from assms obtain docs where s: "snapshot = Returned docs"
    and m: "mapOrThrow (apiKeyOfDoc eng) docs = Inr keys"
    by (auto simp: getUserApiKeys_def split: option.splits outcome.splits sum.splits)
  from m have "list_all2
       (\<lambda>d r. r ''keyHash'' = None \<and>
          (\<forall>k. k \<noteq> ''keyHash'' \<and> k \<noteq> ''createdAt'' \<and> k \<noteq> ''id'' \<longrightarrow> r k = doc_data d k) \<and>
          (\<exists>seconds nanoseconds.
              doc_data d ''createdAt'' = Some (JTimestamp seconds nanoseconds) \<and>
              r ''createdAt'' = Some (JDate (seconds * 1000 + nanoseconds div 1000000))) \<and>
          r ''id'' = (case doc_data d ''id'' of None \<Rightarrow> Some (JStr (doc_id d))
                      | Some v \<Rightarrow> Some v))
       docs keys"
    by (rule mapOrThrow_all2) (rule apiKeyOfDoc_fields)
  with s show ?thesis by blast
qed

theorem getUserApiKeys_hides_keyHash_witness:
  "\<exists>r. getUserApiKeys \<lparr>readOfUndefined = ''r'', notAFunction = ''n''\<rparr> (Some ''u'')
        (Returned \<lparr>compliant = True, issues = []\<rparr>) (Returned True)
        (Returned [\<lparr>doc_id = ''k2'',
                    doc_data = [''userId'' \<mapsto> JStr ''u'', ''keyHash'' \<mapsto> JStr ''9f2c'',
                                ''createdAt'' \<mapsto> JTimestamp 12 345000000]\<rparr>]) = Inr [r] \<and>
      r ''keyHash'' = None \<and> r ''userId'' = Some (JStr ''u'') \<and>
      r ''createdAt'' = Some (JDate 12345) \<and> r ''id'' = Some (JStr ''k2'')"
proof -
  let ?d = "\<lparr>doc_id = ''k2'',
             doc_data = [''userId'' \<mapsto> JStr ''u'', ''keyHash'' \<mapsto> JStr ''9f2c'',
                         ''createdAt'' \<mapsto> JTimestamp 12 345000000]\<rparr>"
  let ?call = "getUserApiKeys \<lparr>readOfUndefined = ''r'', notAFunction = ''n''\<rparr> (Some ''u'')
        (Returned \<lparr>compliant = True, issues = []\<rparr>) (Returned True) (Returned [?d])"
  have "\<exists>r. ?call = Inr [r]"
    by (simp add: getUserApiKeys_def validateSecurityAccess_def apiKeyOfDoc_def)
  then obtain r where r: "?call = Inr [r]" ..
  from getUserApiKeys_hides_keyHash [OF r]
  have "r ''keyHash'' = None \<and> r ''userId'' = Some (JStr ''u'') \<and>
      r ''createdAt'' = Some (JDate 12345) \<and> r ''id'' = Some (JStr ''k2'')"
    by simp
  with r show ?thesis by blast
qed

section \<open>Properties of the stop control\<close>


section \<open>Properties of the flow walker\<close>

declare executeNode.simps(3) [simp del]

lemma forEachNext_Args5:
  "forEachNext (\<lambda>x s. executeNode w n (Args5 x g obj cfgs) s) xs st =
     (if xs = [] then Some (Inr (), st)
      else case n of 0 \<Rightarrow> None | Suc m \<Rightarrow> Some (Inl (TypeError (setOfUndefined w)), st))"
  by (cases xs; cases n) simp_all

lemma executeNode_not_found:
  "find (\<lambda>x. node_id x = nodeId) nodes = None \<Longrightarrow>
   executeNode w (Suc n) (Args6 nodeId g nodes input cfgs) st =
     Some (Inl (Error (''Node '' @ nodeId @ '' not found'')), setCurrentNode nodeId st)"
  by (simp add: executeNode.simps(3))

lemma executeNode_start:
  "find (\<lambda>x. node_id x = nodeId) nodes = Some node \<Longrightarrow> isStartNode node nodeId \<Longrightarrow>
   executeNode w (Suc n) (Args6 nodeId g nodes input cfgs) st =
     forEachNext (\<lambda>x s. executeNode w n (Args6 x g nodes input cfgs) s)
       (nextNodesOf g nodeId) (setCurrentNode nodeId st)"
  by (simp add: executeNode.simps(3) Let_def)

lemma executeNode_nonstart:
  "find (\<lambda>x. node_id x = nodeId) nodes = Some node \<Longrightarrow> \<not> isStartNode node nodeId \<Longrightarrow>
   executeNode w (Suc n) (Args6 nodeId g nodes input cfgs) st =
     (case
        (case nodeOutcome w node nodeId (length (calls st)) of
           Inl e \<Rightarrow> Some (Inl e, logCall node nodeId (setCurrentNode nodeId st))
         | Inr (result, c) \<Rightarrow>
             forEachNext
               (\<lambda>x s. executeNode w n (Args5 x g (input(nodeId \<mapsto> result)) cfgs) s)
               (nextNodesOf g nodeId)
               (storeResult nodeId result c (logCall node nodeId (setCurrentNode nodeId st))))
      of
        None \<Rightarrow> None
      | Some (Inr u, st2) \<Rightarrow> Some (Inr (), st2)
      | Some (Inl e, st2) \<Rightarrow>
          (if errorHandlingOf cfgs nodeId = ''stop'' then Some (Inl e, recordError nodeId e st2)
           else if errorHandlingOf cfgs nodeId = ''skip'' then
             forEachNext (\<lambda>x s. executeNode w n (Args5 x g input cfgs) s)
               (nextNodesOf g nodeId) (recordError nodeId e st2)
           else if errorHandlingOf cfgs nodeId = ''retry'' then
             executeNode w n (Args6 nodeId g nodes input cfgs) (recordError nodeId e st2)
           else Some (Inr (), recordError nodeId e st2)))"
  unfolding executeNode.simps(3) Let_def
  by (simp add: setCurrentNode_def)

lemma forEachNext_mono:
  assumes "forEachNext f xs st = Some r"
    and "\<And>x s r. f x s = Some r \<Longrightarrow> f' x s = Some r"
  shows "forEachNext f' xs st = Some r"
  using assms(1)
proof (induction xs arbitrary: st)
  case Nil
  then show ?case by simp
next
  case (Cons x xs)
  from Cons.prems obtain res s1 where r1: "f x st = Some (res, s1)"
    by (cases "f x st") auto
  then have r1': "f' x st = Some (res, s1)" by (rule assms(2))
  show ?case
  proof (cases res)
    case (Inl e)
    with Cons.prems r1 r1' show ?thesis by auto
  next
    case (Inr u)
    with Cons.prems r1 have "forEachNext f xs s1 = Some r" by simp
    then have "forEachNext f' xs s1 = Some r" by (rule Cons.IH)
    with r1' Inr show ?thesis by simp
  qed
qed

lemma executeNode_fuel_Suc:
  "executeNode w n args st = Some r \<Longrightarrow> executeNode w (Suc n) args st = Some r"
proof (induction n arbitrary: args st r)
  case 0
  then show ?case by simp
next
  case (Suc n)
  note IH = Suc.IH
  have loop: "\<And>mk xs s r. forEachNext (\<lambda>x s. executeNode w n (mk x) s) xs s = Some r
      \<Longrightarrow> forEachNext (\<lambda>x s. executeNode w (Suc n) (mk x) s) xs s = Some r"
    by (erule forEachNext_mono) (rule IH)
  show ?case
  proof (cases args)
    case (Args5 nodeId g obj cfgs)
    with Suc.prems show ?thesis by simp
  next
    case (Args6 nodeId g nodes input cfgs)
    show ?thesis
    proof (cases "find (\<lambda>x. node_id x = nodeId) nodes")
      case None
      with Suc.prems Args6 show ?thesis by (simp add: executeNode_not_found)
    next
      case (Some node)
      show ?thesis
      proof (cases "isStartNode node nodeId")
        case True
        with Suc.prems Args6 Some
        have "forEachNext (\<lambda>x s. executeNode w n (Args6 x g nodes input cfgs) s)
                (nextNodesOf g nodeId) (setCurrentNode nodeId st) = Some r"
          by (simp add: executeNode_start)
        then have "forEachNext (\<lambda>x s. executeNode w (Suc n) (Args6 x g nodes input cfgs) s)
                (nextNodesOf g nodeId) (setCurrentNode nodeId st) = Some r"
          by (rule loop)
        with Args6 Some True show ?thesis by (simp add: executeNode_start)
      next
        case False
        define H where "H k e st2 =
          (if errorHandlingOf cfgs nodeId = ''stop'' then Some (Inl e, recordError nodeId e st2)
           else if errorHandlingOf cfgs nodeId = ''skip'' then
             forEachNext (\<lambda>x s. executeNode w k (Args5 x g input cfgs) s)
               (nextNodesOf g nodeId) (recordError nodeId e st2)
           else if errorHandlingOf cfgs nodeId = ''retry'' then
             executeNode w k (Args6 nodeId g nodes input cfgs) (recordError nodeId e st2)
           else Some (Inr (), recordError nodeId e st2))" for k e st2
        define T where "T k =
          (case nodeOutcome w node nodeId (length (calls st)) of
             Inl e \<Rightarrow> Some (Inl e, logCall node nodeId (setCurrentNode nodeId st))
           | Inr (result, c) \<Rightarrow>
               forEachNext
                 (\<lambda>x s. executeNode w k (Args5 x g (input(nodeId \<mapsto> result)) cfgs) s)
                 (nextNodesOf g nodeId)
                 (storeResult nodeId result c
                    (logCall node nodeId (setCurrentNode nodeId st))))" for k
        have E: "executeNode w (Suc k) (Args6 nodeId g nodes input cfgs) st =
            (case T k of None \<Rightarrow> None | Some (Inr u, st2) \<Rightarrow> Some (Inr (), st2)
             | Some (Inl e, st2) \<Rightarrow> H k e st2)" for k
          unfolding T_def H_def by (rule executeNode_nonstart [OF Some False])
        have Hmono: "H n e st2 = Some r \<Longrightarrow> H (Suc n) e st2 = Some r" for e st2 r
          unfolding H_def using IH loop by (auto split: if_splits)
        have Tmono: "T n = Some x \<Longrightarrow> T (Suc n) = Some x" for x
          unfolding T_def using loop by (auto split: sum.splits prod.splits)
        from Suc.prems Args6 have En: "(case T n of None \<Rightarrow> None
             | Some (Inr u, st2) \<Rightarrow> Some (Inr (), st2)
             | Some (Inl e, st2) \<Rightarrow> H n e st2) = Some r"
          by (simp add: E)
        then obtain res st2 where Tn: "T n = Some (res, st2)"
          by (cases "T n") auto
        then have TS: "T (Suc n) = Some (res, st2)" by (rule Tmono)
        show ?thesis
        proof (cases res)
          case (Inl e)
          with En Tn have "H n e st2 = Some r" by simp
          then have "H (Suc n) e st2 = Some r" by (rule Hmono)
          with TS Inl Args6 show ?thesis by (simp add: E)
        next
          case (Inr u)
          with En Tn have "r = (Inr (), st2)" by simp
          with TS Inr Args6 show ?thesis by (simp add: E)
        qed
      qed
    qed
  qed
qed

lemma executeNode_fuel_mono:
  "executeNode w n args st = Some r \<Longrightarrow> n \<le> m \<Longrightarrow> executeNode w m args st = Some r"
  by (induction m) (auto simp: le_Suc_eq dest: executeNode_fuel_Suc)

lemma calls_setCurrentNode [simp]: "calls (setCurrentNode nodeId st) = calls st"
  by (simp add: setCurrentNode_def)

lemma errors_setCurrentNode [simp]: "errors (exec (setCurrentNode nodeId st)) = errors (exec st)"
  by (simp add: setCurrentNode_def)

lemma errors_logCall [simp]: "errors (exec (logCall node nodeId st)) = errors (exec st)"
  by (simp add: logCall_def)

lemma errors_storeResult [simp]: "errors (exec (storeResult nodeId result c st)) = errors (exec st)"
  by (simp add: storeResult_def)

lemma errors_recordError [simp]:
  "errors (exec (recordError nodeId e st)) = (errors (exec st))(nodeId \<mapsto> message_or ''Unknown error'' e)"
  by (simp add: recordError_def)

lemma forEachNext_Args5_state:
  "forEachNext (\<lambda>x s. executeNode w n (Args5 x g obj cfgs) s) xs st = Some (r, st') \<Longrightarrow> st' = st"
  by (simp add: forEachNext_Args5 split: if_splits nat.splits)

lemma executeNode_retry_step:
  assumes "find (\<lambda>x. node_id x = nodeId) nodes = Some node"
    and "\<not> isStartNode node nodeId"
    and "errorHandlingOf cfgs nodeId = ''retry''"
    and "nodeOutcome w node nodeId (length (calls st)) = Inl e"
  shows "executeNode w (Suc n) (Args6 nodeId g nodes input cfgs) st =
         executeNode w n (Args6 nodeId g nodes input cfgs)
           (recordError nodeId e (logCall node nodeId (setCurrentNode nodeId st)))"
  using assms(3,4) by (simp add: executeNode_nonstart [OF assms(1,2)])

lemma executeNode_retry_diverges:
  assumes "find (\<lambda>x. node_id x = nodeId) nodes = Some node"
    and "\<not> isStartNode node nodeId"
    and "errorHandlingOf cfgs nodeId = ''retry''"
    and "\<And>k. \<exists>e. nodeOutcome w node nodeId k = Inl e"
  shows "executeNode w n (Args6 nodeId g nodes input cfgs) st = None"
proof (induction n arbitrary: st)
  case 0
  show ?case by simp
next
  case (Suc n)
  from assms(4) obtain e where "nodeOutcome w node nodeId (length (calls st)) = Inl e"
    by blast
  with assms(1-3) show ?case
    by (simp add: executeNode_retry_step Suc.IH)
qed

lemma forEachNext_stop_errors:
  assumes step: "\<And>x s r s'. f x s = Some (r, s') \<Longrightarrow> errors (exec s') N \<noteq> errors (exec s) N \<Longrightarrow>
            \<exists>e. r = Inl e \<and> errors (exec s') N = Some (message_or ''Unknown error'' e)"
    and "forEachNext f xs st = Some (res, st')"
    and "errors (exec st') N \<noteq> errors (exec st) N"
  shows "\<exists>e. res = Inl e \<and> errors (exec st') N = Some (message_or ''Unknown error'' e)"
  using assms(2,3)
proof (induction xs arbitrary: st)
  case Nil
  then show ?case by simp
next
  case (Cons x xs)
  from Cons.prems(1) obtain r1 s1 where r1: "f x st = Some (r1, s1)"
    by (cases "f x st") auto
  show ?case
  proof (cases r1)
    case (Inl e)
    with Cons.prems r1 have "res = Inl e" "st' = s1" by auto
    with step [OF r1] Cons.prems(2) Inl show ?thesis by auto
  next
    case (Inr u)
    with step [OF r1] have same: "errors (exec s1) N = errors (exec st) N" by auto
    from Cons.prems(1) r1 Inr have "forEachNext f xs s1 = Some (res, st')" by simp
    moreover from Cons.prems(2) same have "errors (exec st') N \<noteq> errors (exec s1) N" by simp
    ultimately show ?thesis by (rule Cons.IH)
  qed
qed

lemma executeNode_stop_errors:
  assumes stop: "errorHandlingOf cfgs N = ''stop''"
  shows "executeNode w n (Args6 nodeId g nodes input cfgs) st = Some (res, st') \<Longrightarrow>
     errors (exec st') N \<noteq> errors (exec st) N \<Longrightarrow>
     \<exists>e. res = Inl e \<and> errors (exec st') N = Some (message_or ''Unknown error'' e)"
proof (induction n arbitrary: nodeId st res st')
  case 0
  then show ?case by simp
next
  case (Suc n)
  note IH = Suc.IH
  show ?case
  proof (cases "find (\<lambda>x. node_id x = nodeId) nodes")
    case None
    with Suc.prems show ?thesis by (auto simp: executeNode_not_found)
  next
    case (Some node)
    show ?thesis
    proof (cases "isStartNode node nodeId")
      case True
      from Suc.prems(1) have loop:
        "forEachNext (\<lambda>x s. executeNode w n (Args6 x g nodes input cfgs) s)
           (nextNodesOf g nodeId) (setCurrentNode nodeId st) = Some (res, st')"
        by (simp add: executeNode_start [OF Some True])
      from Suc.prems(2)
      have "errors (exec st') N \<noteq> errors (exec (setCurrentNode nodeId st)) N" by simp
      with loop show ?thesis
        by (rule forEachNext_stop_errors [rotated]) (rule IH)
    next
      case False
      have retry: "errorHandlingOf cfgs nodeId = ''retry'' \<Longrightarrow>
          executeNode w n (Args6 nodeId g nodes input cfgs) (recordError nodeId e s2) = Some (res, st') \<Longrightarrow>
          errors (exec s2) = errors (exec st) \<Longrightarrow>
          \<exists>e. res = Inl e \<and> errors (exec st') N = Some (message_or ''Unknown error'' e)" for e s2
      proof -
        assume r: "errorHandlingOf cfgs nodeId = ''retry''"
          and ex: "executeNode w n (Args6 nodeId g nodes input cfgs) (recordError nodeId e s2) = Some (res, st')"
          and same: "errors (exec s2) = errors (exec st)"
        from r stop have "N \<noteq> nodeId" by auto
        with same Suc.prems(2) have "errors (exec st') N \<noteq> errors (exec (recordError nodeId e s2)) N"
          by simp
        with ex show ?thesis by (rule IH)
      qed
      define H where "H e st2 =
          (if errorHandlingOf cfgs nodeId = ''stop'' then Some (Inl e, recordError nodeId e st2)
           else if errorHandlingOf cfgs nodeId = ''skip'' then
             forEachNext (\<lambda>x s. executeNode w n (Args5 x g input cfgs) s)
               (nextNodesOf g nodeId) (recordError nodeId e st2)
           else if errorHandlingOf cfgs nodeId = ''retry'' then
             executeNode w n (Args6 nodeId g nodes input cfgs) (recordError nodeId e st2)
           else Some (Inr (), recordError nodeId e st2))" for e st2
      define T where "T =
          (case nodeOutcome w node nodeId (length (calls st)) of
             Inl e \<Rightarrow> Some (Inl e, logCall node nodeId (setCurrentNode nodeId st))
           | Inr (result, c) \<Rightarrow>
               forEachNext
                 (\<lambda>x s. executeNode w n (Args5 x g (input(nodeId \<mapsto> result)) cfgs) s)
                 (nextNodesOf g nodeId)
                 (storeResult nodeId result c
                    (logCall node nodeId (setCurrentNode nodeId st))))"
      have E: "executeNode w (Suc n) (Args6 nodeId g nodes input cfgs) st =
            (case T of None \<Rightarrow> None | Some (Inr u, st2) \<Rightarrow> Some (Inr (), st2)
             | Some (Inl e, st2) \<Rightarrow> H e st2)"
        unfolding T_def H_def by (rule executeNode_nonstart [OF Some False])
      have Tsame: "errors (exec s2) = errors (exec st)" if "T = Some (r, s2)" for r s2
        using that unfolding T_def
        by (auto split: sum.splits prod.splits dest: forEachNext_Args5_state)
      have Hcase: "\<exists>e. res = Inl e \<and> errors (exec st') N = Some (message_or ''Unknown error'' e)"
        if h: "H e s2 = Some (res, st')" and same: "errors (exec s2) = errors (exec st)" for e s2
      proof (cases "errorHandlingOf cfgs nodeId = ''stop''")
        case True
        with h have r: "res = Inl e" "st' = recordError nodeId e s2"
          by (auto simp: H_def)
        with same Suc.prems(2) have "N = nodeId"
          by (auto split: if_splits)
        with r show ?thesis by simp
      next
        case notstop: False
        with stop have neq: "N \<noteq> nodeId" by auto
        show ?thesis
        proof (cases "errorHandlingOf cfgs nodeId = ''retry''")
          case True
          with h notstop have ex: "executeNode w n (Args6 nodeId g nodes input cfgs)
              (recordError nodeId e s2) = Some (res, st')"
            by (simp add: H_def)
          from True ex same show ?thesis by (rule retry)
        next
          case False
          with h notstop have "st' = recordError nodeId e s2"
            by (auto simp: H_def split: if_splits dest: forEachNext_Args5_state)
          with same neq Suc.prems(2) show ?thesis by simp
        qed
      qed
      from Suc.prems(1) obtain r s2 where Tn: "T = Some (r, s2)"
        by (cases T) (auto simp: E)
      show ?thesis
      proof (cases r)
        case (Inl e)
        with Suc.prems(1) Tn have "H e s2 = Some (res, st')" by (simp add: E)
        then show ?thesis using Tsame [OF Tn] by (rule Hcase)
      next
        case (Inr u)
        with Suc.prems(1) Tn have "st' = s2" by (simp add: E)
        with Tsame [OF Tn] Suc.prems(2) show ?thesis by simp
      qed
    qed
  qed
qed

text \<open>
  An executed node with a successor: the output is stored, the invocation for the first
  successor throws, and under the policy \<^verbatim>\<open>stop\<close> the node re-throws that
  \<^verbatim>\<open>TypeError\<close>. No successor is executed.
\<close>

lemma executeNode_successor_invocation_throws:
  assumes "find (\<lambda>x. node_id x = nodeId) nodes = Some node"
    and "\<not> isStartNode node nodeId"
    and "errorHandlingOf cfgs nodeId = ''stop''"
    and "nodeOutcome w node nodeId (length (calls st)) = Inr (result, c)"
    and "nextNodesOf g nodeId \<noteq> []"
  shows "executeNode w (Suc (Suc n)) (Args6 nodeId g nodes input cfgs) st =
         Some (Inl (TypeError (setOfUndefined w)),
               recordError nodeId (TypeError (setOfUndefined w))
                 (storeResult nodeId result c
                    (logCall node nodeId (setCurrentNode nodeId st))))"
  using assms(3-5) by (simp add: executeNode_nonstart [OF assms(1,2)] forEachNext_Args5)

text \<open>A start node that is its own first successor is walked forever.\<close>

lemma executeNode_start_cycle_diverges:
  assumes "find (\<lambda>x. node_id x = nodeId) nodes = Some node"
    and "isStartNode node nodeId"
    and "nextNodesOf g nodeId = nodeId # rest"
  shows "executeNode w n (Args6 nodeId g nodes input cfgs) st = None"
proof (induction n arbitrary: st)
  case 0
  show ?case by simp
next
  case (Suc n)
  show ?case
    by (simp add: executeNode_start [OF assms(1,2)] assms(3) Suc.IH)
qed

lemmas example_defs = agentsSucceed_def agentsFail_def chainNodes_def chainEdges_def
  singleNodes_def singleEdges_def cycleEdges_def retryConfigs_def noExecutions_def

lemmas walk_defs = executeFlow_def findStartNode_def buildExecutionGraph_def newExecution_def
  isStartNode_def isAgentNode_def isIntegrationNode_def nodeOutcome_def logCall_def
  setCurrentNode_def storeResult_def recordError_def nextNodesOf_def errorHandlingOf_def
  executeNode.simps(3) Let_def

lemma show_nat_7: "show_nat 7 = ''7''"
  by code_simp

text \<open>
  C1. On the chain start, agent-1, agent-2 with every agent call succeeding, the output of
  agent-1 is stored under its id, but the invocation for its successor agent-2 is made
  with five arguments (the node list is missing), so it throws at its first statement:
  agent-2 is never executed (the only service call is for agent-1, and there is no result
  for agent-2), the \<^verbatim>\<open>TypeError\<close> is recorded for agent-1, and the flow ends with status
  error.
\<close>

theorem executeFlow_chain_successor_never_runs:
  "executeFlow agentsSucceed 3 chainNodes chainEdges Map.empty Map.empty noExecutions =
     Some (Inr ''flow_7'',
           \<lparr>executions = [''flow_7'' \<mapsto>
               \<lparr>exec_id = ''flow_7'', status = st_error, currentNode = Some ''agent-1'',
                results = [''agent-1'' \<mapsto> JStr ''out''],
                errors = [''agent-1'' \<mapsto> ''Cannot set properties of undefined (setting 'currentNode')'',
                          ''flow'' \<mapsto> ''Cannot set properties of undefined (setting 'currentNode')''],
                startTime = 7, endTime = Some 9, totalCost = Some 0\<rparr>]\<rparr>,
           [''agent-1''])"
  by (simp add: walk_defs example_defs show_nat_7 numeral_3_eq_3)

text \<open>
  C3. On the graph with the edges start to agent-1, agent-1 to agent-2 and agent-2 back to
  agent-1, and every agent call succeeding, the walk returns: agent-1 is executed once,
  the invocation for its successor agent-2 is made with five arguments and throws at its
  first statement, and the flow ends with status error. The cycle is not walked forever.
\<close>

theorem executeFlow_cycle_terminates:
  "executeFlow agentsSucceed 3 chainNodes cycleEdges Map.empty Map.empty noExecutions =
     Some (Inr ''flow_7'',
           \<lparr>executions = [''flow_7'' \<mapsto>
               \<lparr>exec_id = ''flow_7'', status = st_error, currentNode = Some ''agent-1'',
                results = [''agent-1'' \<mapsto> JStr ''out''],
                errors = [''agent-1'' \<mapsto> ''Cannot set properties of undefined (setting 'currentNode')'',
                          ''flow'' \<mapsto> ''Cannot set properties of undefined (setting 'currentNode')''],
                startTime = 7, endTime = Some 9, totalCost = Some 0\<rparr>]\<rparr>,
           [''agent-1''])"
  by (simp add: walk_defs example_defs show_nat_7 numeral_3_eq_3)

lemma errorHandlingOf_retry:
  "nodeConfigs nodeId = Some config \<Longrightarrow> errorHandling config = Some ''retry'' \<Longrightarrow>
   errorHandlingOf nodeConfigs nodeId = ''retry''"
  by (simp add: errorHandlingOf_def)

text \<open>
  C2. For a node that is no start node and whose configuration has \<^verbatim>\<open>errorHandling\<close>
  \<^verbatim>\<open>retry\<close>: when its execution fails, the invocation is the invocation of the same
  node with the same arguments (on the execution with the error recorded), with nothing
  in between and no count of retries; and when its execution fails at every call,
  no depth of invocations suffices for \<^verbatim>\<open>executeNode\<close> to return.
\<close>

theorem executeNode_retry_reinvokes_forever:
  assumes found: "find (\<lambda>x. node_id x = nodeId) nodes = Some node"
    and nonstart: "\<not> isStartNode node nodeId"
    and config: "nodeConfigs nodeId = Some config"
    and retry: "errorHandling config = Some ''retry''"
  shows "(\<forall>e. nodeOutcome w node nodeId (length (calls st)) = Inl e \<longrightarrow>
            executeNode w (Suc n) (Args6 nodeId g nodes input nodeConfigs) st =
            executeNode w n (Args6 nodeId g nodes input nodeConfigs)
              (recordError nodeId e (logCall node nodeId (setCurrentNode nodeId st)))) \<and>
         ((\<forall>k. \<exists>e. nodeOutcome w node nodeId k = Inl e) \<longrightarrow>
            (\<forall>fuel s. executeNode w fuel (Args6 nodeId g nodes input nodeConfigs) s = None))"
proof -
  from config retry have r: "errorHandlingOf nodeConfigs nodeId = ''retry''"
    by (rule errorHandlingOf_retry)
  show ?thesis
    using executeNode_retry_step [OF found nonstart r]
      executeNode_retry_diverges [OF found nonstart r]
    by blast
qed

theorem executeNode_retry_reinvokes_forever_witness:
  "\<forall>fuel. executeNode agentsFail fuel
      (Args6 ''agent-1'' (buildExecutionGraph singleNodes singleEdges) singleNodes Map.empty
         retryConfigs)
      \<lparr>exec = newExecution agentsFail, calls = []\<rparr> = None"
proof -
  let ?node = "\<lparr>node_id = ''agent-1'', node_type = Some ''agent''\<rparr>"
  have found: "find (\<lambda>x. node_id x = ''agent-1'') singleNodes = Some ?node"
    by (simp add: singleNodes_def)
  have nonstart: "\<not> isStartNode ?node ''agent-1''"
    by (simp add: isStartNode_def)
  have config: "retryConfigs ''agent-1'' = Some \<lparr>errorHandling = Some ''retry''\<rparr>"
    by (simp add: retryConfigs_def)
  have fails: "\<forall>k. \<exists>e. nodeOutcome agentsFail ?node ''agent-1'' k = Inl e"
    by (simp add: nodeOutcome_def isAgentNode_def agentsFail_def)
  have retry: "errorHandling \<lparr>errorHandling = Some ''retry''\<rparr> = Some ''retry''"
    by simp
  from executeNode_retry_reinvokes_forever
         [where w = agentsFail and nodeConfigs = retryConfigs and nodeId = "''agent-1''"
            and nodes = singleNodes and node = ?node, OF found nonstart config retry]
       fails
  show ?thesis by simp
qed


lemma executeNode_stop_step:
  assumes "find (\<lambda>x. node_id x = nodeId) nodes = Some node"
    and "\<not> isStartNode node nodeId"
    and "errorHandlingOf cfgs nodeId = ''stop''"
    and "nodeOutcome w node nodeId (length (calls st)) = Inl e"
  shows "executeNode w (Suc n) (Args6 nodeId g nodes input cfgs) st =
         Some (Inl e, recordError nodeId e (logCall node nodeId (setCurrentNode nodeId st)))"
  using assms(3,4) by (simp add: executeNode_nonstart [OF assms(1,2)])

lemma errors_newExecution [simp]: "errors (newExecution w) = Map.empty"
  by (simp add: newExecution_def)

lemma executeFlow_stop_error:
  assumes stop: "errorHandlingOf nodeConfigs nodeId = ''stop''"
    and flow: "executeFlow w fuel nodes edges input nodeConfigs svc = Some (r, svc', lg)"
    and ex: "getExecution svc' (''flow_'' @ show_nat (dateNow w)) = Some ex"
    and err: "errors ex nodeId = Some m"
  shows "status ex = st_error \<and> errors ex ''flow'' = Some m \<and> endTime ex = Some (endDate w)"
proof (cases "findStartNode nodes")
  case None
  with flow ex err show ?thesis
    by (auto simp: executeFlow_def Let_def getExecution_def split: if_splits)
next
  case (Some startNode)
  let ?st0 = "\<lparr>exec = newExecution w, calls = []\<rparr>"
  let ?walk = "executeNode w fuel
      (Args6 (node_id startNode) (buildExecutionGraph nodes edges) nodes input nodeConfigs) ?st0"
  from flow Some obtain res st where walk: "?walk = Some (res, st)"
    by (cases ?walk) (auto simp: executeFlow_def Let_def)
  have inv: "errors (exec st) nodeId \<noteq> errors (exec ?st0) nodeId \<Longrightarrow>
      \<exists>e. res = Inl e \<and> errors (exec st) nodeId = Some (message_or ''Unknown error'' e)"
    using stop walk by (rule executeNode_stop_errors)
  show ?thesis
  proof (cases res)
    case (Inl e)
    with flow Some walk ex
    have exeq: "ex = (exec st)\<lparr>status := st_error,
        errors := (errors (exec st))(''flow'' \<mapsto> message_or ''Unknown error'' e),
        endTime := Some (endDate w)\<rparr>"
      by (auto simp: executeFlow_def Let_def getExecution_def)
    show ?thesis
    proof (cases "nodeId = ''flow''")
      case True
      with exeq err show ?thesis by simp
    next
      case False
      with exeq err have "errors (exec st) nodeId = Some m" by simp
      with inv Inl have "m = message_or ''Unknown error'' e" by auto
      with exeq show ?thesis by simp
    qed
  next
    case (Inr u)
    with flow Some walk ex
    have exeq: "ex = (exec st)\<lparr>status := st_completed, endTime := Some (endDate w)\<rparr>"
      by (auto simp: executeFlow_def Let_def getExecution_def)
    with err have "errors (exec st) nodeId = Some m" by simp
    with inv Inr show ?thesis by auto
  qed
qed

lemma forEachNext_append_throw:
  "forEachNext f pre st = Some (Inr (), s1) \<Longrightarrow> f x s1 = Some (Inl e, s2) \<Longrightarrow>
   forEachNext f (pre @ x # post) st = Some (Inl e, s2)"
proof (induction pre arbitrary: st)
  case Nil
  then show ?case by simp
next
  case (Cons a pre)
  from Cons.prems(1) obtain r sa where a: "f a st = Some (r, sa)"
    by (cases "f a st") auto
  with Cons.prems(1) obtain u where r: "r = Inr u" and rest: "forEachNext f pre sa = Some (Inr (), s1)"
    by (cases r) auto
  from rest Cons.prems(2) have "forEachNext f (pre @ x # post) sa = Some (Inl e, s2)"
    by (rule Cons.IH)
  with a r show ?case by simp
qed

lemma executeNode_start_rethrows:
  assumes "find (\<lambda>x. node_id x = startId) nodes = Some startNode"
    and "isStartNode startNode startId"
    and "nextNodesOf g startId = pre @ x # post"
    and "forEachNext (\<lambda>y s. executeNode w n (Args6 y g nodes input cfgs) s) pre
           (setCurrentNode startId st) = Some (Inr (), s1)"
    and "executeNode w n (Args6 x g nodes input cfgs) s1 = Some (Inl e, s2)"
  shows "executeNode w (Suc n) (Args6 startId g nodes input cfgs) st = Some (Inl e, s2)"
  using forEachNext_append_throw [OF assms(4), of x e s2 post] assms(3,5)
  by (simp add: executeNode_start [OF assms(1,2)])

lemma executeFlow_catches:
  assumes "findStartNode nodes = Some startNode"
    and "executeNode w fuel
           (Args6 (node_id startNode) (buildExecutionGraph nodes edges) nodes input nodeConfigs)
           \<lparr>exec = newExecution w, calls = []\<rparr> = Some (Inl e, s)"
  shows "executeFlow w fuel nodes edges input nodeConfigs svc =
     Some (Inr (''flow_'' @ show_nat (dateNow w)),
           svc\<lparr>executions := (executions svc)(''flow_'' @ show_nat (dateNow w) \<mapsto>
                  (exec s)\<lparr>status := st_error,
                           errors := (errors (exec s))(''flow'' \<mapsto> message_or ''Unknown error'' e),
                           endTime := Some (endDate w)\<rparr>)\<rparr>,
           calls s)"
  using assms by (simp add: executeFlow_def Let_def)


text \<open>
  C4. For a node whose error handling is \<^verbatim>\<open>stop\<close> (configured, or by default when the
  configuration or its \<^verbatim>\<open>errorHandling\<close> is missing). First, when the node is no start
  node and its execution fails, \<^verbatim>\<open>executeNode\<close> returns by throwing that error, on a
  state that differs from the one it started on only by the current node, the logged
  service call and the error message recorded under the node id: no successor is
  visited. Second, a start node re-throws what the invocation of a successor throws,
  without visiting the later successors. Third, \<^verbatim>\<open>executeFlow\<close> catches what the
  invocation of the start node throws: it resolves, the stored execution having status
  error, the message under the key \<^verbatim>\<open>flow\<close> and an end time. Fourth, whenever
  \<^verbatim>\<open>executeFlow\<close> returns with an error recorded under the node id, the stored execution
  has status error, that same message under the key \<^verbatim>\<open>flow\<close>, and an end time.
\<close>

theorem stop_policy_records_rethrows_and_fails_flow:
  assumes stop: "errorHandlingOf nodeConfigs nodeId = ''stop''"
  shows "(\<forall>node e. find (\<lambda>x. node_id x = nodeId) nodes = Some node \<and>
              \<not> isStartNode node nodeId \<and>
              nodeOutcome w node nodeId (length (calls st)) = Inl e \<longrightarrow>
            executeNode w (Suc n) (Args6 nodeId g nodes input nodeConfigs) st =
              Some (Inl e,
                    recordError nodeId e (logCall node nodeId (setCurrentNode nodeId st)))) \<and>
         (\<forall>startId startNode pre post k s0 s1 s2 e.
            find (\<lambda>x. node_id x = startId) nodes = Some startNode \<and>
            isStartNode startNode startId \<and>
            nextNodesOf g startId = pre @ nodeId # post \<and>
            forEachNext (\<lambda>y s. executeNode w k (Args6 y g nodes input nodeConfigs) s) pre
              (setCurrentNode startId s0) = Some (Inr (), s1) \<and>
            executeNode w k (Args6 nodeId g nodes input nodeConfigs) s1 = Some (Inl e, s2) \<longrightarrow>
            executeNode w (Suc k) (Args6 startId g nodes input nodeConfigs) s0 =
              Some (Inl e, s2)) \<and>
         (\<forall>startNode e s.
            findStartNode nodes = Some startNode \<and>
            executeNode w fuel
              (Args6 (node_id startNode) (buildExecutionGraph nodes edges) nodes input
                 nodeConfigs)
              \<lparr>exec = newExecution w, calls = []\<rparr> = Some (Inl e, s) \<longrightarrow>
            executeFlow w fuel nodes edges input nodeConfigs svc =
              Some (Inr (''flow_'' @ show_nat (dateNow w)),
                    svc\<lparr>executions := (executions svc)(''flow_'' @ show_nat (dateNow w) \<mapsto>
                           (exec s)\<lparr>status := st_error,
                                    errors := (errors (exec s))(''flow'' \<mapsto>
                                                message_or ''Unknown error'' e),
                                    endTime := Some (endDate w)\<rparr>)\<rparr>,
                    calls s)) \<and>
         (\<forall>r svc' lg ex m.
            executeFlow w fuel nodes edges input nodeConfigs svc = Some (r, svc', lg) \<and>
            getExecution svc' (''flow_'' @ show_nat (dateNow w)) = Some ex \<and>
            errors ex nodeId = Some m \<longrightarrow>
            status ex = st_error \<and> errors ex ''flow'' = Some m \<and>
            endTime ex = Some (endDate w))"
proof (intro conjI allI impI)
  fix node e
  assume "find (\<lambda>x. node_id x = nodeId) nodes = Some node \<and>
      \<not> isStartNode node nodeId \<and>
      nodeOutcome w node nodeId (length (calls st)) = Inl e"
  then show "executeNode w (Suc n) (Args6 nodeId g nodes input nodeConfigs) st =
      Some (Inl e, recordError nodeId e (logCall node nodeId (setCurrentNode nodeId st)))"
    using stop by (simp add: executeNode_stop_step)
next
  fix startId startNode pre post k s0 s1 s2 e
  assume "find (\<lambda>x. node_id x = startId) nodes = Some startNode \<and>
      isStartNode startNode startId \<and>
      nextNodesOf g startId = pre @ nodeId # post \<and>
      forEachNext (\<lambda>y s. executeNode w k (Args6 y g nodes input nodeConfigs) s) pre
        (setCurrentNode startId s0) = Some (Inr (), s1) \<and>
      executeNode w k (Args6 nodeId g nodes input nodeConfigs) s1 = Some (Inl e, s2)"
  then have a: "find (\<lambda>x. node_id x = startId) nodes = Some startNode"
    and b: "isStartNode startNode startId"
    and c: "nextNodesOf g startId = pre @ nodeId # post"
    and d: "forEachNext (\<lambda>y s. executeNode w k (Args6 y g nodes input nodeConfigs) s) pre
        (setCurrentNode startId s0) = Some (Inr (), s1)"
    and e: "executeNode w k (Args6 nodeId g nodes input nodeConfigs) s1 = Some (Inl e, s2)"
    by simp_all
  from a b c d e
  show "executeNode w (Suc k) (Args6 startId g nodes input nodeConfigs) s0 = Some (Inl e, s2)"
    by (rule executeNode_start_rethrows)
next
  fix startNode e s
  assume "findStartNode nodes = Some startNode \<and>
      executeNode w fuel
        (Args6 (node_id startNode) (buildExecutionGraph nodes edges) nodes input nodeConfigs)
        \<lparr>exec = newExecution w, calls = []\<rparr> = Some (Inl e, s)"
  then show "executeFlow w fuel nodes edges input nodeConfigs svc =
      Some (Inr (''flow_'' @ show_nat (dateNow w)),
            svc\<lparr>executions := (executions svc)(''flow_'' @ show_nat (dateNow w) \<mapsto>
                   (exec s)\<lparr>status := st_error,
                            errors := (errors (exec s))(''flow'' \<mapsto>
                                        message_or ''Unknown error'' e),
                            endTime := Some (endDate w)\<rparr>)\<rparr>,
            calls s)"
    by (simp add: executeFlow_catches)
next
  fix r svc' lg ex m
  assume h: "executeFlow w fuel nodes edges input nodeConfigs svc = Some (r, svc', lg) \<and>
      getExecution svc' (''flow_'' @ show_nat (dateNow w)) = Some ex \<and>
      errors ex nodeId = Some m"
  then have "status ex = st_error \<and> errors ex ''flow'' = Some m \<and>
      endTime ex = Some (endDate w)"
    using executeFlow_stop_error [OF stop, of w fuel nodes edges input svc r svc' lg ex m]
    by simp
  then show "status ex = st_error" and "errors ex ''flow'' = Some m"
    and "endTime ex = Some (endDate w)"
    by simp_all
qed

theorem stop_policy_records_rethrows_and_fails_flow_witness:
  "executeNode agentsFail 1
     (Args6 ''agent-1'' (buildExecutionGraph singleNodes singleEdges) singleNodes Map.empty Map.empty)
     \<lparr>exec = newExecution agentsFail, calls = []\<rparr> =
   Some (Inl (Error ''API key not found for provider: openai''),
         recordError ''agent-1'' (Error ''API key not found for provider: openai'')
           (logCall \<lparr>node_id = ''agent-1'', node_type = Some ''agent''\<rparr> ''agent-1''
              (setCurrentNode ''agent-1'' \<lparr>exec = newExecution agentsFail, calls = []\<rparr>))) \<and>
   (\<exists>svc' ex.
      executeFlow agentsFail 2 singleNodes singleEdges Map.empty Map.empty noExecutions =
        Some (Inr ''flow_7'', svc', [''agent-1'']) \<and>
      getExecution svc' ''flow_7'' = Some ex \<and> errors ex ''agent-1'' = Some ''API key not found for provider: openai'' \<and>
      status ex = st_error \<and> errors ex ''flow'' = Some ''API key not found for provider: openai'' \<and> endTime ex = Some 9)"
proof -
  let ?node = "\<lparr>node_id = ''agent-1'', node_type = Some ''agent''\<rparr>"
  let ?st0 = "\<lparr>exec = newExecution agentsFail, calls = []\<rparr>"
  have stop: "errorHandlingOf Map.empty ''agent-1'' = ''stop''"
    by (simp add: errorHandlingOf_def)
  note node_part = stop_policy_records_rethrows_and_fails_flow
    [OF stop, THEN conjunct1, rule_format]
  note flow_part = stop_policy_records_rethrows_and_fails_flow
    [OF stop, THEN conjunct2, THEN conjunct2, THEN conjunct2, rule_format]
  have found: "find (\<lambda>x. node_id x = ''agent-1'') singleNodes = Some ?node"
    by (simp add: singleNodes_def)
  have nonstart: "\<not> isStartNode ?node ''agent-1''"
    by (simp add: isStartNode_def)
  have fails: "nodeOutcome agentsFail ?node ''agent-1'' (length (calls ?st0)) = Inl (Error ''API key not found for provider: openai'')"
    by (simp add: nodeOutcome_def isAgentNode_def agentsFail_def)
  have "executeNode agentsFail (Suc 0)
     (Args6 ''agent-1'' (buildExecutionGraph singleNodes singleEdges) singleNodes Map.empty Map.empty)
     ?st0 =
   Some (Inl (Error ''API key not found for provider: openai''),
         recordError ''agent-1'' (Error ''API key not found for provider: openai'') (logCall ?node ''agent-1'' (setCurrentNode ''agent-1'' ?st0)))"
    by (rule node_part) (intro conjI found nonstart fails)
  then have a: "executeNode agentsFail 1
     (Args6 ''agent-1'' (buildExecutionGraph singleNodes singleEdges) singleNodes Map.empty Map.empty)
     ?st0 =
   Some (Inl (Error ''API key not found for provider: openai''),
         recordError ''agent-1'' (Error ''API key not found for provider: openai'') (logCall ?node ''agent-1'' (setCurrentNode ''agent-1'' ?st0)))"
    by (simp only: One_nat_def)
  have "\<exists>svc' ex.
      executeFlow agentsFail 2 singleNodes singleEdges Map.empty Map.empty noExecutions =
        Some (Inr ''flow_7'', svc', [''agent-1'']) \<and>
      getExecution svc' ''flow_7'' = Some ex \<and> errors ex ''agent-1'' = Some ''API key not found for provider: openai''"
    by (simp add: walk_defs example_defs show_nat_7 numeral_2_eq_2 getExecution_def)
  then obtain svc' ex where
    flow: "executeFlow agentsFail 2 singleNodes singleEdges Map.empty Map.empty noExecutions =
        Some (Inr ''flow_7'', svc', [''agent-1''])"
    and ex: "getExecution svc' ''flow_7'' = Some ex" and err: "errors ex ''agent-1'' = Some ''API key not found for provider: openai''"
    by blast
  have id: "''flow_'' @ show_nat (dateNow agentsFail) = ''flow_7''"
    by (simp add: agentsFail_def show_nat_7)
  have "status ex = st_error \<and> errors ex ''flow'' = Some ''API key not found for provider: openai'' \<and>
      endTime ex = Some (endDate agentsFail)"
    by (rule flow_part [where w = agentsFail]) (intro conjI, rule flow, simp only: id ex, rule err)
  then have b: "status ex = st_error \<and> errors ex ''flow'' = Some ''API key not found for provider: openai'' \<and> endTime ex = Some 9"
    by (simp add: agentsFail_def)
  from flow ex err b have "\<exists>svc' ex.
      executeFlow agentsFail 2 singleNodes singleEdges Map.empty Map.empty noExecutions =
        Some (Inr ''flow_7'', svc', [''agent-1'']) \<and>
      getExecution svc' ''flow_7'' = Some ex \<and> errors ex ''agent-1'' = Some ''API key not found for provider: openai'' \<and>
      status ex = st_error \<and> errors ex ''flow'' = Some ''API key not found for provider: openai'' \<and> endTime ex = Some 9"
    by blast
  with a show ?thesis by (rule conjI)
qed





end
